theory Spec2Isabelle
  imports Complex_Main "HOL-Library.Word"
begin

unbundle bit_operations_syntax

section \<open>Bytes, buffers and errors\<close>

text \<open>
  A Node \<^verbatim>\<open>Buffer\<close> is a list of bytes. An \<^verbatim>\<open>AudioSource\<close> (a buffer, a typed array
  or a path) is modelled by the bytes it holds: \<^verbatim>\<open>openSource\<close> only records those bytes
  and their count, and \<^verbatim>\<open>size\<close> of the opened source is the length of the list.
  JavaScript numbers that stay integral are \<open>nat\<close> or \<open>int\<close>; the ones that can carry
  a fraction (\<^verbatim>\<open>bitsPerSample / 8\<close>, the byte rate) are \<open>real\<close>.
\<close>

type_synonym byte = "8 word"
type_synonym Buffer = "byte list"

text \<open>
  Every \<^verbatim>\<open>throw new Error(...)\<close> of the sources is one constructor, named by the error
  kind and quoted with its message; \<open>RangeError\<close> is what Node's \<^verbatim>\<open>Buffer\<close>
  readers and writers throw for an offset or a value that is out of range.
\<close>

datatype ChannelMode = mono | stereo

datatype error =
    NoSources \<comment> \<open>\<^verbatim>\<open>No sources provided\<close>\<close>
  | UnsupportedFormat \<comment> \<open>\<^verbatim>\<open>Unsupported or unrecognized audio container\<close>\<close>
  | RangeError \<comment> \<open>Node: \<^verbatim>\<open>ERR_OUT_OF_RANGE\<close>\<close>
  | RequiresWav \<comment> \<open>\<^verbatim>\<open>stitchWav requires WAV inputs\<close>\<close>
  | AllMustBeWav \<comment> \<open>\<^verbatim>\<open>All inputs must be WAV\<close>\<close>
  | WavParameterMismatch \<comment> \<open>\<^verbatim>\<open>WAV parameter mismatch across sources\<close>\<close>
  | DataChunkNotFound \<comment> \<open>\<^verbatim>\<open>WAV data chunk not found\<close>\<close>
  | WavOutputPathRequired \<comment> \<open>\<^verbatim>\<open>WAV file output path required\<close>\<close>
  | RequiresMp3 \<comment> \<open>\<^verbatim>\<open>stitchMp3 requires MP3 inputs\<close>\<close>
  | AllMustBeMp3 \<comment> \<open>\<^verbatim>\<open>All inputs must be MP3\<close>\<close>
  | Mp3ParameterMismatch \<comment> \<open>\<^verbatim>\<open>MP3 parameter mismatch across sources\<close>\<close>
  | Mp3BitrateMismatch \<comment> \<open>\<^verbatim>\<open>MP3 bitrate mismatch across sources\<close>\<close>
  | FrameSyncNotFound \<comment> \<open>\<^verbatim>\<open>MP3 frame sync not found\<close>\<close>
  | Mp3OutputPathRequired \<comment> \<open>\<^verbatim>\<open>MP3 file output path required\<close>\<close>
  | SilenceAssetNotFound nat ChannelMode nat \<comment> \<open>\<^verbatim>\<open>Silence asset not found for ...\<close>\<close>
  | FileNotFound string \<comment> \<open>Node: \<^verbatim>\<open>ENOENT\<close> from \<^verbatim>\<open>fs.readFileSync\<close>\<close>
  | MetadataError string \<comment> \<open>whatever \<^verbatim>\<open>parseBuffer\<close> of the metadata library throws\<close>
  | CoreParametersMissing \<comment> \<open>\<^verbatim>\<open>Could not read core audio parameters\<close>\<close>
  | UnsupportedContainer string \<comment> \<open>\<^verbatim>\<open>Unsupported container: ...\<close>\<close>

text \<open>The spec's \<open>ParameterMismatch\<close> kind covers the three mismatch messages.\<close>

definition isParameterMismatch :: "error \<Rightarrow> bool" where
  "isParameterMismatch e =
     (e = WavParameterMismatch \<or> e = Mp3ParameterMismatch \<or> e = Mp3BitrateMismatch)"

text \<open>\<^verbatim>\<open>buf.subarray(start, end)\<close>: the view is clamped to the buffer.\<close>

definition subarray :: "Buffer \<Rightarrow> nat \<Rightarrow> nat \<Rightarrow> Buffer" where
  "subarray buf start end = take (end - start) (drop start buf)"

text \<open>
  \<^verbatim>\<open>readBytes(opened, offset, length)\<close>. For a buffer it is
  \<^verbatim>\<open>subarray(offset, offset + length)\<close>; for a file it is the first \<^verbatim>\<open>bytes\<close> bytes of
  a zero-filled buffer that \<^verbatim>\<open>fs.readSync\<close> filled from \<^verbatim>\<open>offset\<close>, where a read of
  a regular file returns every byte that is there, up to \<^verbatim>\<open>length\<close>. Both are the same
  list.
\<close>

definition readBytes :: "Buffer \<Rightarrow> nat \<Rightarrow> nat \<Rightarrow> Buffer" where
  "readBytes opened offset len = subarray opened offset (offset + len)"

text \<open>
  \<^verbatim>\<open>buf.toString('ascii', start, end)\<close> clears the top bit of every byte before decoding;
  the string is kept as its list of character codes, and a string literal of the
  source is the list of its codes.
\<close>

definition toString_ascii :: "Buffer \<Rightarrow> nat \<Rightarrow> nat \<Rightarrow> Buffer" where
  "toString_ascii buf start end = map (\<lambda>b. b AND 0x7f) (subarray buf start end)"

definition str_RIFF :: Buffer where "str_RIFF = [0x52, 0x49, 0x46, 0x46]"
definition str_WAVE :: Buffer where "str_WAVE = [0x57, 0x41, 0x56, 0x45]"
definition str_fmt :: Buffer where "str_fmt = [0x66, 0x6d, 0x74, 0x20]"
definition str_data :: Buffer where "str_data = [0x64, 0x61, 0x74, 0x61]"
definition str_ID3 :: Buffer where "str_ID3 = [0x49, 0x44, 0x33]"

text \<open>Little-endian readers. The unchecked ones are used where the caller's guard
  keeps the offset in range; the checked ones throw as Node does.\<close>

definition readUInt8 :: "Buffer \<Rightarrow> nat \<Rightarrow> byte" where
  "readUInt8 buf off = buf ! off"

definition u16le :: "Buffer \<Rightarrow> nat \<Rightarrow> nat" where
  "u16le buf off = unat (buf ! off) + 256 * unat (buf ! (off + 1))"

definition u32le :: "Buffer \<Rightarrow> nat \<Rightarrow> nat" where
  "u32le buf off = unat (buf ! off) + 256 * unat (buf ! (off + 1))
     + 65536 * unat (buf ! (off + 2)) + 16777216 * unat (buf ! (off + 3))"

definition readUInt16LE :: "Buffer \<Rightarrow> nat \<Rightarrow> error + nat" where
  "readUInt16LE buf off = (if off + 2 \<le> length buf then Inr (u16le buf off) else Inl RangeError)"

definition readUInt32LE :: "Buffer \<Rightarrow> nat \<Rightarrow> error + nat" where
  "readUInt32LE buf off = (if off + 4 \<le> length buf then Inr (u32le buf off) else Inl RangeError)"

section \<open>The two probes\<close>

text \<open>
  The repository holds two functions named \<^verbatim>\<open>probe\<close>. The one of the file
  \<^verbatim>\<open>probe.ts\<close>, which the stitch engines import as \<^verbatim>\<open>./probe.js\<close>, hands the bytes to
  the library \<^verbatim>\<open>music-metadata\<close> and translates the format it reports; it is
  \<open>probe_mm\<close> below. The other one parses the headers itself (\<^verbatim>\<open>parseWavHeader\<close>,
  \<^verbatim>\<open>parseMp3Header\<close>); it is \<open>probe\<close>. Both return the same record types.
\<close>

record ProbeInfoBase =
  sampleRate :: nat
  channels :: nat

record WavProbeInfo = ProbeInfoBase +
  bitsPerSample :: nat
  dataBytes :: "nat option"

record Mp3ProbeInfo = ProbeInfoBase +
  bitrateKbps :: "nat option"
  vbr :: bool
  id3v2Bytes :: "nat option"

datatype ProbeInfo = Wav WavProbeInfo | Mp3 Mp3ProbeInfo

subsection \<open>parseWavHeader\<close>

text \<open>The four reads of a \<^verbatim>\<open>fmt \<close> chunk, in the source's order; the first one out
  of range throws.\<close>

definition read_fmt :: "Buffer \<Rightarrow> nat \<Rightarrow> error + (nat \<times> nat \<times> nat \<times> nat)" where
  "read_fmt buf offset =
     (case readUInt16LE buf (offset + 8) of Inl e \<Rightarrow> Inl e | Inr audioFormat \<Rightarrow>
       (case readUInt16LE buf (offset + 10) of Inl e \<Rightarrow> Inl e | Inr ch \<Rightarrow>
         (case readUInt32LE buf (offset + 12) of Inl e \<Rightarrow> Inl e | Inr sr \<Rightarrow>
           (case readUInt16LE buf (offset + 22) of Inl e \<Rightarrow> Inl e | Inr bps \<Rightarrow>
              Inr (audioFormat, ch, sr, bps)))))"

text \<open>
  The chunk walk. The loop variables are \<^verbatim>\<open>fmtFound\<close> and the four fields of the
  result. \<open>Inl\<close> is a throw, \<open>Inr None\<close> the \<^verbatim>\<open>return null\<close> inside the loop,
  \<open>Inr (Some s)\<close> the state when the loop ends.
\<close>

function parseWavHeader_walk ::
  "Buffer \<Rightarrow> nat \<Rightarrow> bool \<Rightarrow> WavProbeInfo \<Rightarrow> error + (bool \<times> WavProbeInfo) option" where
  "parseWavHeader_walk buf offset fmtFound v =
     (if offset + 8 \<le> length buf then
        (let ident = toString_ascii buf offset (offset + 4);
             sz = u32le buf (offset + 4);
             next = offset + 8 + sz
         in if ident = str_fmt then
              (case read_fmt buf offset of
                 Inl e \<Rightarrow> Inl e
               | Inr (audioFormat, ch, sr, bps) \<Rightarrow>
                   if audioFormat \<noteq> 1 then Inr None
                   else parseWavHeader_walk buf next True
                          (v\<lparr>sampleRate := sr, channels := ch, bitsPerSample := bps\<rparr>))
            else if ident = str_data then
              parseWavHeader_walk buf next fmtFound (v\<lparr>dataBytes := Some sz\<rparr>)
            else parseWavHeader_walk buf next fmtFound v)
      else Inr (Some (fmtFound, v)))"
  by pat_completeness auto
termination
  by (relation "measure (\<lambda>(buf, offset, fmtFound, v). length buf - offset)") auto

declare parseWavHeader_walk.simps [simp del]

definition parseWavHeader :: "Buffer \<Rightarrow> error + WavProbeInfo option" where
  "parseWavHeader buf =
     (if length buf < 44 then Inr None
      else if toString_ascii buf 0 4 \<noteq> str_RIFF then Inr None
      else if toString_ascii buf 8 12 \<noteq> str_WAVE then Inr None
      else
        (case parseWavHeader_walk buf 12 False
                \<lparr>sampleRate = 0, channels = 0, bitsPerSample = 0, dataBytes = None\<rparr> of
           Inl e \<Rightarrow> Inl e
         | Inr None \<Rightarrow> Inr None
         | Inr (Some (fmtFound, v)) \<Rightarrow>
             if \<not> fmtFound \<or> sampleRate v = 0 \<or> channels v = 0 \<or> bitsPerSample v = 0
             then Inr None
             else Inr (Some v)))"

subsection \<open>skipId3Size and parseMp3Header\<close>

definition skipId3Size :: "Buffer \<Rightarrow> nat" where
  "skipId3Size buf =
     (if length buf < 10 then 0
      else if toString_ascii buf 0 3 \<noteq> str_ID3 then 0
      else
        (let b6 = readUInt8 buf 6; b7 = readUInt8 buf 7;
             b8 = readUInt8 buf 8; b9 = readUInt8 buf 9;
             sz = push_bit 21 (unat (b6 AND 0x7f)) OR push_bit 14 (unat (b7 AND 0x7f))
                  OR push_bit 7 (unat (b8 AND 0x7f)) OR unat (b9 AND 0x7f)
         in 10 + sz))"

definition bitrateTable :: "byte \<Rightarrow> nat option" where
  "bitrateTable = map_of
     [(0x01, 32), (0x02, 40), (0x03, 48), (0x04, 56), (0x05, 64), (0x06, 80), (0x07, 96),
      (0x08, 112), (0x09, 128), (0x0a, 160), (0x0b, 192), (0x0c, 224), (0x0d, 256),
      (0x0e, 320)]"

text \<open>The body of the scan loop at index \<open>i\<close>: \<open>None\<close> is \<^verbatim>\<open>continue\<close> (or no
  sync at \<open>i\<close>), \<open>Some\<close> the returned record.\<close>

definition parseMp3Header_at :: "Buffer \<Rightarrow> nat \<Rightarrow> nat \<Rightarrow> Mp3ProbeInfo option" where
  "parseMp3Header_at buf start i =
     (let b1 = readUInt8 buf i; b2 = readUInt8 buf (i + 1)
      in if b1 = 0xff \<and> b2 AND 0xe0 = 0xe0 then
           (let versionBits = drop_bit 3 b2 AND 0x03;
                layerBits = drop_bit 1 b2 AND 0x03
            in if layerBits \<noteq> 0x01 then None
               else
                 (let b3 = readUInt8 buf (i + 2);
                      bitrateIndex = drop_bit 4 b3 AND 0x0f;
                      sampleRateIndex = drop_bit 2 b3 AND 0x03
                  in if bitrateIndex = 0x0f \<or> sampleRateIndex = 0x03 then None
                     else
                       (let b4 = readUInt8 buf (i + 3);
                            channelMode = drop_bit 6 b4 AND 0x03;
                            sampleRates = (if versionBits = 0x03 then [44100, 48000, 32000]
                                           else [22050, 24000, 16000])
                        in Some \<lparr>sampleRate = sampleRates ! unat sampleRateIndex,
                                 channels = (if channelMode = 0x03 then 1 else 2),
                                 bitrateKbps = bitrateTable bitrateIndex,
                                 vbr = False,
                                 id3v2Bytes = Some start\<rparr>)))
         else None)"

function parseMp3Header_scan :: "Buffer \<Rightarrow> nat \<Rightarrow> nat \<Rightarrow> nat \<Rightarrow> Mp3ProbeInfo option" where
  "parseMp3Header_scan buf start maxScan i =
     (if i + 4 \<le> maxScan then
        (case parseMp3Header_at buf start i of
           Some info \<Rightarrow> Some info
         | None \<Rightarrow> parseMp3Header_scan buf start maxScan (i + 1))
      else None)"
  by pat_completeness auto
termination
  by (relation "measure (\<lambda>(buf, start, maxScan, i). maxScan - i)") auto

declare parseMp3Header_scan.simps [simp del]

definition parseMp3Header :: "Buffer \<Rightarrow> nat \<Rightarrow> Mp3ProbeInfo option" where
  "parseMp3Header buf start =
     (let maxScan = min (length buf) (start + 4096)
      in parseMp3Header_scan buf start maxScan start)"

subsection \<open>probe\<close>

definition probe :: "Buffer \<Rightarrow> error + ProbeInfo" where
  "probe source =
     (let head = readBytes source 0 8192
      in case parseWavHeader head of
           Inl e \<Rightarrow> Inl e
         | Inr (Some wav) \<Rightarrow> Inr (Wav wav)
         | Inr None \<Rightarrow>
             (let id3 = skipId3Size head
              in case parseMp3Header head id3 of
                   Some mp3 \<Rightarrow> Inr (Mp3 mp3)
                 | None \<Rightarrow> Inl UnsupportedFormat))"

subsection \<open>The probe of the engines, over the metadata library\<close>

text \<open>
  The library is not part of the repository: its \<^verbatim>\<open>parseBuffer\<close> is a parameter, a
  function from the bytes to the format record it reports or to the message of the error
  it throws. Of the format only the fields that \<^verbatim>\<open>probe.ts\<close> reads are kept; each may be
  absent. The numbers are the counts of the headers, unsigned integers; the bitrate is in
  bits per second. The fields \<open>sampleRate_fmt\<close> and \<open>bitsPerSample_fmt\<close> are the
  library's \<^verbatim>\<open>sampleRate\<close> and \<^verbatim>\<open>bitsPerSample\<close>.
\<close>

record IFormat =
  container :: "string option"
  codec :: "string option"
  sampleRate_fmt :: "nat option"
  numberOfChannels :: "nat option"
  bitsPerSample_fmt :: "nat option"
  bitrate :: "nat option"
  codecProfile :: "string option"

type_synonym MetadataLibrary = "Buffer \<Rightarrow> string + IFormat"

text \<open>
  \<^verbatim>\<open>toLowerCase\<close> maps the letters \<^verbatim>\<open>A\<close> to \<^verbatim>\<open>Z\<close> to \<^verbatim>\<open>a\<close> to \<^verbatim>\<open>z\<close> (it sets the
  bit of value 32 of the character code) and \<^verbatim>\<open>s.includes(t)\<close> holds when \<open>t\<close> occurs in
  \<open>s\<close> as a contiguous part. Characters outside ASCII are left as they are; the texts
  looked for are ASCII.
\<close>

definition toLowerCase :: "string \<Rightarrow> string" where
  "toLowerCase s =
     map (\<lambda>c. if 65 \<le> (of_char c :: nat) \<and> (of_char c :: nat) \<le> 90
              then (case c of Char b0 b1 b2 b3 b4 b5 b6 b7 \<Rightarrow> Char b0 b1 b2 b3 b4 True b6 b7)
              else c) s"

fun str_includes :: "string \<Rightarrow> string \<Rightarrow> bool" where
  "str_includes [] t = (t = [])"
| "str_includes (c # cs) t = (take (length t) (c # cs) = t \<or> str_includes cs t)"

text \<open>
  \<^verbatim>\<open>probe\<close> of \<^verbatim>\<open>probe.ts\<close> on a source given as bytes: the opened source is of kind
  \<^verbatim>\<open>buffer\<close>, so the whole buffer goes to \<^verbatim>\<open>parseBuffer\<close>. A number that is absent or 0
  is falsy. The records it returns carry neither \<^verbatim>\<open>dataBytes\<close> nor \<^verbatim>\<open>id3v2Bytes\<close>.
\<close>

definition probe_mm :: "MetadataLibrary \<Rightarrow> Buffer \<Rightarrow> error + ProbeInfo" where
  "probe_mm parseBuffer source =
     (case parseBuffer source of
        Inl msg \<Rightarrow> Inl (MetadataError msg)
      | Inr format \<Rightarrow>
          (let cont = toLowerCase
                 (case container format of
                    Some c \<Rightarrow> c
                  | None \<Rightarrow> (case codec format of Some c \<Rightarrow> c | None \<Rightarrow> []));
               sr = (case sampleRate_fmt format of Some n \<Rightarrow> n | None \<Rightarrow> 0);
               ch = (case numberOfChannels format of Some n \<Rightarrow> n | None \<Rightarrow> 0)
           in if sr = 0 \<or> ch = 0 then Inl CoreParametersMissing
              else if str_includes cont ''wav'' \<or> str_includes cont ''wave''
                      \<or> str_includes cont ''riff'' then
                Inr (Wav \<lparr>sampleRate = sr, channels = ch,
                           bitsPerSample = (case bitsPerSample_fmt format of
                                              Some b \<Rightarrow> b | None \<Rightarrow> 16),
                           dataBytes = None\<rparr>)
              else if str_includes cont ''mp3'' \<or> str_includes cont ''mpeg'' then
                Inr (Mp3 \<lparr>sampleRate = sr, channels = ch,
                           bitrateKbps = (case bitrate format of
                                            None \<Rightarrow> None
                                          | Some b \<Rightarrow> if b = 0 then None
                                                      else Some (nat (round (real b / 1000)))),
                           vbr = (case codecProfile format of
                                    None \<Rightarrow> False
                                  | Some p \<Rightarrow> str_includes (toLowerCase p) ''vbr''),
                           id3v2Bytes = None\<rparr>)
              else Inl (UnsupportedContainer cont)))"

section \<open>The WAV stitch engine\<close>

subsection \<open>createWavHeader\<close>

text \<open>
  The header is a zero-filled buffer of 44 bytes that receives thirteen writes.
  \<^verbatim>\<open>buffer.write(string, offset)\<close> stores the codes of the string.
  \<^verbatim>\<open>writeUInt32LE\<close> and \<^verbatim>\<open>writeUInt16LE\<close> throw when the value is outside the range of
  the field and store the integral part of the value otherwise.
\<close>

definition write_at :: "Buffer \<Rightarrow> nat \<Rightarrow> Buffer \<Rightarrow> Buffer" where
  "write_at bytes off buf = take off buf @ bytes @ drop (off + length bytes) buf"

definition le16 :: "nat \<Rightarrow> Buffer" where
  "le16 v = [of_nat v, of_nat (v div 256)]"

definition le32 :: "nat \<Rightarrow> Buffer" where
  "le32 v = [of_nat v, of_nat (v div 256), of_nat (v div 65536), of_nat (v div 16777216)]"

definition buffer_write :: "Buffer \<Rightarrow> nat \<Rightarrow> Buffer \<Rightarrow> error + Buffer" where
  "buffer_write str off buf = Inr (write_at str off buf)"

definition writeUInt16LE :: "real \<Rightarrow> nat \<Rightarrow> Buffer \<Rightarrow> error + Buffer" where
  "writeUInt16LE v off buf =
     (if v < 0 \<or> 65535 < v \<or> length buf < off + 2 then Inl RangeError
      else Inr (write_at (le16 (nat \<lfloor>v\<rfloor>)) off buf))"

definition writeUInt32LE :: "real \<Rightarrow> nat \<Rightarrow> Buffer \<Rightarrow> error + Buffer" where
  "writeUInt32LE v off buf =
     (if v < 0 \<or> 4294967295 < v \<or> length buf < off + 4 then Inl RangeError
      else Inr (write_at (le32 (nat \<lfloor>v\<rfloor>)) off buf))"

text \<open>Statements in sequence: the first one that throws ends the run.\<close>

fun statements :: "(Buffer \<Rightarrow> error + Buffer) list \<Rightarrow> Buffer \<Rightarrow> error + Buffer" where
  "statements [] buf = Inr buf"
| "statements (st # sts) buf = (case st buf of Inl e \<Rightarrow> Inl e | Inr buf' \<Rightarrow> statements sts buf')"

definition createWavHeader :: "nat \<Rightarrow> WavProbeInfo \<Rightarrow> error + Buffer" where
  "createWavHeader totalDataBytes info =
     (let byteRate = real (sampleRate info) * real (channels info) * (real (bitsPerSample info) / 8);
          blockAlign = real (channels info) * (real (bitsPerSample info) / 8)
      in statements
           [buffer_write str_RIFF 0,
            writeUInt32LE (36 + real totalDataBytes) 4,
            buffer_write str_WAVE 8,
            buffer_write str_fmt 12,
            writeUInt32LE 16 16,
            writeUInt16LE 1 20,
            writeUInt16LE (real (channels info)) 22,
            writeUInt32LE (real (sampleRate info)) 24,
            writeUInt32LE byteRate 28,
            writeUInt16LE blockAlign 32,
            writeUInt16LE (real (bitsPerSample info)) 34,
            buffer_write str_data 36,
            writeUInt32LE (real totalDataBytes) 40]
           (replicate 44 0))"

subsection \<open>stitchWav\<close>

text \<open>The validation loop over all sources (the first one included). The engine
  and everything it calls take the library as their first argument \<open>mm\<close>.\<close>

fun validateWav ::
  "MetadataLibrary \<Rightarrow> WavProbeInfo \<Rightarrow> Buffer list \<Rightarrow> error + WavProbeInfo list" where
  "validateWav mm firstInfo [] = Inr []"
| "validateWav mm firstInfo (src # rest) =
     (case probe_mm mm src of
        Inl e \<Rightarrow> Inl e
      | Inr (Mp3 info) \<Rightarrow> Inl AllMustBeWav
      | Inr (Wav info) \<Rightarrow>
          if sampleRate info \<noteq> sampleRate firstInfo \<or> channels info \<noteq> channels firstInfo
             \<or> bitsPerSample info \<noteq> bitsPerSample firstInfo
          then Inl WavParameterMismatch
          else (case validateWav mm firstInfo rest of
                  Inl e \<Rightarrow> Inl e
                | Inr infos \<Rightarrow> Inr (info # infos)))"

text \<open>The scan for the \<^verbatim>\<open>data\<close> chunk: \<open>None\<close> is \<^verbatim>\<open>dataStart = -1\<close> at the end of
  the loop, \<open>Some (dataStart, dataSize)\<close> the \<^verbatim>\<open>break\<close>.\<close>

function findDataChunk :: "Buffer \<Rightarrow> nat \<Rightarrow> (nat \<times> nat) option" where
  "findDataChunk head offset =
     (if offset + 8 \<le> length head then
        (let ident = toString_ascii head offset (offset + 4);
             sz = u32le head (offset + 4)
         in if ident = str_data then Some (offset + 8, sz)
            else findDataChunk head (offset + 8 + sz))
      else None)"
  by pat_completeness auto
termination
  by (relation "measure (\<lambda>(head, offset). length head - offset)") auto

declare findDataChunk.simps [simp del]

record Part =
  opened :: Buffer
  start :: nat
  len :: nat

text \<open>
  The pre-pass over the opened sources: the parts and \<^verbatim>\<open>totalData\<close>. The test
  \<^verbatim>\<open>i < opened.length - 1\<close> holds exactly when sources remain after the current one.
\<close>

definition gapBytes :: "nat \<Rightarrow> int \<Rightarrow> nat" where
  "gapBytes bytesPerMs gapMs = nat (int bytesPerMs * gapMs)"

fun wavParts :: "nat \<Rightarrow> int \<Rightarrow> Buffer list \<Rightarrow> error + (Part list \<times> nat)" where
  "wavParts bytesPerMs gapMs [] = Inr ([], 0)"
| "wavParts bytesPerMs gapMs (cur # rest) =
     (let head = readBytes cur 0 8192
      in case findDataChunk head 12 of
           None \<Rightarrow> Inl DataChunkNotFound
         | Some (dataStart, dataSize) \<Rightarrow>
             (case wavParts bytesPerMs gapMs rest of
                Inl e \<Rightarrow> Inl e
              | Inr (parts, totalData) \<Rightarrow>
                  Inr (\<lparr>opened = cur, start = dataStart, len = dataSize\<rparr> # parts,
                       dataSize
                       + (if rest \<noteq> [] \<and> gapMs > 0 then gapBytes bytesPerMs gapMs else 0)
                       + totalData)))"

definition bytesPerMs_of :: "WavProbeInfo \<Rightarrow> nat" where
  "bytesPerMs_of firstInfo =
     (let bytesPerSample = real (bitsPerSample firstInfo) / 8
      in nat \<lfloor>(real (sampleRate firstInfo) * real (channels firstInfo) * bytesPerSample) / 1000\<rfloor>)"

text \<open>Everything \<^verbatim>\<open>stitchWav\<close> does before it branches on the output mode: the
  header, the parts, \<^verbatim>\<open>bytesPerMs\<close> and \<^verbatim>\<open>gapMs\<close>.\<close>

definition stitchWav_plan ::
  "MetadataLibrary \<Rightarrow> Buffer list \<Rightarrow> int option
     \<Rightarrow> error + (Buffer \<times> Part list \<times> nat \<times> int)" where
  "stitchWav_plan mm sources gapMsOpt =
     (if sources = [] then Inl NoSources
      else case probe_mm mm (hd sources) of
        Inl e \<Rightarrow> Inl e
      | Inr (Mp3 info) \<Rightarrow> Inl RequiresWav
      | Inr (Wav firstInfo) \<Rightarrow>
          (case validateWav mm firstInfo sources of
             Inl e \<Rightarrow> Inl e
           | Inr infos \<Rightarrow>
               (let gapMs = (case gapMsOpt of None \<Rightarrow> 0 | Some g \<Rightarrow> g);
                    bytesPerMs = bytesPerMs_of firstInfo
                in case wavParts bytesPerMs gapMs sources of
                     Inl e \<Rightarrow> Inl e
                   | Inr (parts, totalData) \<Rightarrow>
                       (case createWavHeader totalData firstInfo of
                          Inl e \<Rightarrow> Inl e
                        | Inr header \<Rightarrow> Inr (header, parts, bytesPerMs, gapMs)))))"

text \<open>Buffer output: the buffers pushed after the header, then \<^verbatim>\<open>Buffer.concat\<close>.\<close>

fun wavBufs :: "nat \<Rightarrow> int \<Rightarrow> Part list \<Rightarrow> Buffer list" where
  "wavBufs bytesPerMs gapMs [] = []"
| "wavBufs bytesPerMs gapMs (part # rest) =
     readBytes (opened part) (start part) (len part)
     # (if rest \<noteq> [] \<and> gapMs > 0 then [replicate (gapBytes bytesPerMs gapMs) 0] else [])
     @ wavBufs bytesPerMs gapMs rest"

definition stitchWav_buffer ::
  "MetadataLibrary \<Rightarrow> Buffer list \<Rightarrow> int option \<Rightarrow> error + Buffer" where
  "stitchWav_buffer mm sources gapMsOpt =
     (case stitchWav_plan mm sources gapMsOpt of
        Inl e \<Rightarrow> Inl e
      | Inr (header, parts, bytesPerMs, gapMs) \<Rightarrow>
          Inr (concat (header # wavBufs bytesPerMs gapMs parts)))"

text \<open>
  File output. The state is the content of the output file once this call has
  written to it. The copy loop advances by the number of bytes that the read returned,
  so it is a partial function: \<open>None\<close> is a loop that never ends.
\<close>

partial_function (option) copyLoop :: "Buffer \<Rightarrow> nat \<Rightarrow> nat \<Rightarrow> Buffer \<Rightarrow> Buffer option" where
  "copyLoop src position remaining out =
     (if remaining > 0 then
        (let toRead = min (64 * 1024) remaining;
             chunk = readBytes src position toRead
         in copyLoop src (position + length chunk) (remaining - length chunk) (out @ chunk))
      else Some out)"

function gapLoop :: "nat \<Rightarrow> Buffer \<Rightarrow> Buffer" where
  "gapLoop gapLeft out =
     (if gapLeft > 0 then
        (let zeroChunk = replicate (64 * 1024) (0 :: byte);
             n = min (length zeroChunk) gapLeft
         in gapLoop (gapLeft - n) (out @ take n zeroChunk))
      else out)"
  by pat_completeness auto
termination
  by (relation "measure (\<lambda>(gapLeft, out). gapLeft)") auto

declare gapLoop.simps [simp del]

fun wavFileLoop :: "nat \<Rightarrow> int \<Rightarrow> Part list \<Rightarrow> Buffer \<Rightarrow> Buffer option" where
  "wavFileLoop bytesPerMs gapMs [] out = Some out"
| "wavFileLoop bytesPerMs gapMs (part # rest) out =
     (case copyLoop (opened part) (start part) (len part) out of
        None \<Rightarrow> None
      | Some out1 \<Rightarrow>
          wavFileLoop bytesPerMs gapMs rest
            (if rest \<noteq> [] \<and> gapMs > 0 then gapLoop (gapBytes bytesPerMs gapMs) out1 else out1))"

text \<open>The result of a call in file mode: the file's content (\<open>None\<close> when the call
  wrote nothing) and how the call ended; the outer \<open>None\<close> is a call that never
  returns.\<close>

definition stitchWav_file ::
  "MetadataLibrary \<Rightarrow> Buffer list \<Rightarrow> int option \<Rightarrow> string
     \<Rightarrow> (Buffer option \<times> (error + unit)) option" where
  "stitchWav_file mm sources gapMsOpt outPath =
     (case stitchWav_plan mm sources gapMsOpt of
        Inl e \<Rightarrow> Some (None, Inl e)
      | Inr (header, parts, bytesPerMs, gapMs) \<Rightarrow>
          if outPath = [] then Some (None, Inl WavOutputPathRequired)
          else (case wavFileLoop bytesPerMs gapMs parts header of
                  None \<Rightarrow> None
                | Some out \<Rightarrow> Some (Some out, Inr ())))"

section \<open>The MP3 stitch engine\<close>

datatype GapRounding = Nearest | Floor | Ceil

text \<open>
  The \<^verbatim>\<open>silence\<close> option is a Node \<^verbatim>\<open>Buffer\<close>, a \<^verbatim>\<open>Uint8Array\<close> that is not a
  \<^verbatim>\<open>Buffer\<close>, or a string.
\<close>

datatype Silence = SilenceBuffer Buffer | SilenceBytes Buffer | SilencePath string

record StitchMp3Options =
  gapMs :: "int option"
  silence :: "Silence option"
  keepFirstId3 :: "bool option"
  gapRounding :: "GapRounding option"

text \<open>
  What the engine reads from disk: files by path, and the bundled silence clips
  \<^verbatim>\<open>assets/silence/mp3/<sampleRate>/<mono|stereo>/<bitrate>k.mp3\<close> by their three keys.
\<close>

record FileSystem =
  files :: "string \<Rightarrow> Buffer option"
  assets :: "nat \<Rightarrow> ChannelMode \<Rightarrow> nat \<Rightarrow> Buffer option"

function findFirstFrameOffset_from :: "Buffer \<Rightarrow> nat \<Rightarrow> nat option" where
  "findFirstFrameOffset_from buf i =
     (if i + 4 \<le> length buf then
        (let b1 = readUInt8 buf i; b2 = readUInt8 buf (i + 1)
         in if b1 = 0xff \<and> b2 AND 0xe0 = 0xe0 then Some i
            else findFirstFrameOffset_from buf (i + 1))
      else None)"
  by pat_completeness auto
termination
  by (relation "measure (\<lambda>(buf, i). length buf - i)") auto

declare findFirstFrameOffset_from.simps [simp del]

text \<open>\<open>None\<close> is the source's \<^verbatim>\<open>-1\<close>.\<close>

definition findFirstFrameOffset :: "Buffer \<Rightarrow> nat \<Rightarrow> nat option" where
  "findFirstFrameOffset buf from = findFirstFrameOffset_from buf from"

definition estimateFrameDurationMs :: "Mp3ProbeInfo \<Rightarrow> real" where
  "estimateFrameDurationMs info =
     (let samplesPerFrame = 1152 in (samplesPerFrame / real (sampleRate info)) * 1000)"

text \<open>
  \<^verbatim>\<open>String(x)\<close> of a \<^verbatim>\<open>Uint8Array\<close>: the decimal numerals of its bytes, joined by
  commas.
\<close>

definition decimal :: "nat \<Rightarrow> string" where
  "decimal n =
     (if 100 \<le> n then [''0123456789'' ! (n div 100 mod 10)] else [])
     @ (if 10 \<le> n then [''0123456789'' ! (n div 10 mod 10)] else [])
     @ [''0123456789'' ! (n mod 10)]"

fun joinComma :: "string list \<Rightarrow> string" where
  "joinComma [] = []"
| "joinComma [x] = x"
| "joinComma (x # y # rest) = x @ '','' @ joinComma (y # rest)"

definition String_Uint8Array :: "Buffer \<Rightarrow> string" where
  "String_Uint8Array bs = joinComma (map (\<lambda>b. decimal (unat b)) bs)"

definition readFileSync :: "FileSystem \<Rightarrow> string \<Rightarrow> error + Buffer" where
  "readFileSync fs p = (case files fs p of None \<Rightarrow> Inl (FileNotFound p) | Some b \<Rightarrow> Inr b)"

text \<open>An empty path string is falsy, so it counts as no override; a buffer or a typed
  array, even an empty one, is truthy. Only a \<^verbatim>\<open>Buffer\<close> passes \<^verbatim>\<open>Buffer.isBuffer\<close>:
  every other override is turned into a string and read as a path.\<close>

definition loadSilenceAsset :: "FileSystem \<Rightarrow> Mp3ProbeInfo \<Rightarrow> StitchMp3Options \<Rightarrow> error + Buffer" where
  "loadSilenceAsset fs info opts =
     (case silence opts of
        Some (SilenceBuffer b) \<Rightarrow> Inr b
      | Some (SilenceBytes bs) \<Rightarrow> readFileSync fs (String_Uint8Array bs)
      | Some (SilencePath (c # cs)) \<Rightarrow> readFileSync fs (c # cs)
      | _ \<Rightarrow>
          (let channelMode = (if channels info = 1 then mono else stereo);
               bitrateNum = (case bitrateKbps info of None \<Rightarrow> 128 | Some b \<Rightarrow> b)
           in case assets fs (sampleRate info) channelMode bitrateNum of
                None \<Rightarrow> Inl (SilenceAssetNotFound (sampleRate info) channelMode bitrateNum)
              | Some asset \<Rightarrow> Inr asset))"

text \<open>\<^verbatim>\<open>Math.round\<close> rounds a half towards plus infinity, as \<open>round\<close> does.\<close>

definition gapFrames :: "GapRounding \<Rightarrow> real \<Rightarrow> int" where
  "gapFrames rounding framesExact =
     max (if rounding = Floor then \<lfloor>framesExact\<rfloor>
          else if rounding = Ceil then \<lceil>framesExact\<rceil>
          else round framesExact) 0"

definition gapRepeats :: "int \<Rightarrow> real \<Rightarrow> int" where
  "gapRepeats frames frameDurMs = max 1 \<lceil>(real_of_int frames * frameDurMs) / 100\<rceil>"

text \<open>The silence buffers pushed after a source that is not the last one, when
  \<^verbatim>\<open>gapMs > 0\<close>.\<close>

definition gapSilence ::
  "FileSystem \<Rightarrow> Mp3ProbeInfo \<Rightarrow> StitchMp3Options \<Rightarrow> int \<Rightarrow> GapRounding \<Rightarrow> error + Buffer list" where
  "gapSilence fs firstInfo opts g rounding =
     (case loadSilenceAsset fs firstInfo opts of
        Inl e \<Rightarrow> Inl e
      | Inr sil \<Rightarrow>
          (let frameDurMs = estimateFrameDurationMs firstInfo;
               framesExact = real_of_int g / frameDurMs;
               frames = gapFrames rounding framesExact
           in if frames > 0 then Inr (replicate (nat (gapRepeats frames frameDurMs)) sil)
              else Inr []))"

text \<open>The validation loop, from the second source on.\<close>

fun validateMp3 :: "MetadataLibrary \<Rightarrow> Mp3ProbeInfo \<Rightarrow> Buffer list \<Rightarrow> error + unit" where
  "validateMp3 mm firstInfo [] = Inr ()"
| "validateMp3 mm firstInfo (src # rest) =
     (case probe_mm mm src of
        Inl e \<Rightarrow> Inl e
      | Inr (Wav info) \<Rightarrow> Inl AllMustBeMp3
      | Inr (Mp3 info) \<Rightarrow>
          if sampleRate info \<noteq> sampleRate firstInfo \<or> channels info \<noteq> channels firstInfo
          then Inl Mp3ParameterMismatch
          else if bitrateKbps info \<noteq> bitrateKbps firstInfo then Inl Mp3BitrateMismatch
          else validateMp3 mm firstInfo rest)"

text \<open>The main loop over the opened sources, \<open>i\<close> the index of the current one.\<close>

fun mp3Parts ::
  "FileSystem \<Rightarrow> Mp3ProbeInfo \<Rightarrow> StitchMp3Options \<Rightarrow> bool \<Rightarrow> int \<Rightarrow> GapRounding \<Rightarrow> nat
     \<Rightarrow> Buffer list \<Rightarrow> error + Buffer list" where
  "mp3Parts fs firstInfo opts keep g rounding i [] = Inr []"
| "mp3Parts fs firstInfo opts keep g rounding i (cur # rest) =
     (let head = readBytes cur 0 8192;
          id3 = skipId3Size head
      in case findFirstFrameOffset head id3 of
           None \<Rightarrow> Inl FrameSyncNotFound
         | Some frameOff \<Rightarrow>
             (let from = (if keep \<and> i = 0 then 0 else frameOff);
                  chunk = readBytes cur from (length cur - from)
              in case (if rest \<noteq> [] \<and> g > 0 then gapSilence fs firstInfo opts g rounding
                       else Inr []) of
                   Inl e \<Rightarrow> Inl e
                 | Inr sil \<Rightarrow>
                     (case mp3Parts fs firstInfo opts keep g rounding (i + 1) rest of
                        Inl e \<Rightarrow> Inl e
                      | Inr ps \<Rightarrow> Inr (chunk # sil @ ps))))"

definition stitchMp3_parts ::
  "MetadataLibrary \<Rightarrow> FileSystem \<Rightarrow> Buffer list \<Rightarrow> StitchMp3Options \<Rightarrow> error + Buffer list" where
  "stitchMp3_parts mm fs sources opts =
     (if sources = [] then Inl NoSources
      else case probe_mm mm (hd sources) of
        Inl e \<Rightarrow> Inl e
      | Inr (Wav info) \<Rightarrow> Inl RequiresMp3
      | Inr (Mp3 firstInfo) \<Rightarrow>
          (case validateMp3 mm firstInfo (tl sources) of
             Inl e \<Rightarrow> Inl e
           | Inr u \<Rightarrow>
               (let keep = (case keepFirstId3 opts of None \<Rightarrow> True | Some k \<Rightarrow> k);
                    g = (case gapMs opts of None \<Rightarrow> 0 | Some g \<Rightarrow> g);
                    rounding = (case gapRounding opts of None \<Rightarrow> Nearest | Some r \<Rightarrow> r)
                in mp3Parts fs firstInfo opts keep g rounding 0 sources)))"

definition stitchMp3_buffer ::
  "MetadataLibrary \<Rightarrow> FileSystem \<Rightarrow> Buffer list \<Rightarrow> StitchMp3Options \<Rightarrow> error + Buffer" where
  "stitchMp3_buffer mm fs sources opts =
     (case stitchMp3_parts mm fs sources opts of
        Inl e \<Rightarrow> Inl e
      | Inr parts \<Rightarrow> Inr (concat parts))"

definition stitchMp3_file ::
  "MetadataLibrary \<Rightarrow> FileSystem \<Rightarrow> Buffer list \<Rightarrow> StitchMp3Options \<Rightarrow> string
     \<Rightarrow> Buffer option \<times> (error + unit)" where
  "stitchMp3_file mm fs sources opts outPath =
     (case stitchMp3_parts mm fs sources opts of
        Inl e \<Rightarrow> (None, Inl e)
      | Inr parts \<Rightarrow>
          if outPath = [] then (None, Inl Mp3OutputPathRequired)
          else (Some (concat parts), Inr ()))"

section \<open>Notions of the specification\<close>

text \<open>
  The parameters that the engines compare, as the engines' probe reports them under the
  library \<open>mm\<close>: \<open>None\<close> when the source does not probe as that container.
\<close>

definition probedWavParams :: "MetadataLibrary \<Rightarrow> Buffer \<Rightarrow> (nat \<times> nat \<times> nat) option" where
  "probedWavParams mm s =
     (case probe_mm mm s of
        Inr (Wav w) \<Rightarrow> Some (sampleRate w, channels w, bitsPerSample w)
      | _ \<Rightarrow> None)"

definition probedMp3Params ::
  "MetadataLibrary \<Rightarrow> Buffer \<Rightarrow> (nat \<times> nat \<times> nat option) option" where
  "probedMp3Params mm s =
     (case probe_mm mm s of
        Inr (Mp3 m) \<Rightarrow> Some (sampleRate m, channels m, bitrateKbps m)
      | _ \<Rightarrow> None)"

text \<open>The same parameters as the header parser \<open>probe\<close> reports them.\<close>

definition wavParams :: "Buffer \<Rightarrow> (nat \<times> nat \<times> nat) option" where
  "wavParams s =
     (case probe s of
        Inr (Wav w) \<Rightarrow> Some (sampleRate w, channels w, bitsPerSample w)
      | _ \<Rightarrow> None)"

definition mp3Params :: "Buffer \<Rightarrow> (nat \<times> nat \<times> nat option) option" where
  "mp3Params s =
     (case probe s of
        Inr (Mp3 m) \<Rightarrow> Some (sampleRate m, channels m, bitrateKbps m)
      | _ \<Rightarrow> None)"

text \<open>
  The RIFF/WAVE magic as the parser compares it (on the low seven bits of each byte),
  the frame sync pattern, and a frame header that the scan accepts: sync, Layer III,
  a bitrate index other than 15 and a sample rate index other than 3. The scan window
  starts after the ID3v2 tag and holds the offsets whose four header bytes lie within
  4096 bytes and within the head.
\<close>

definition hasRiffWaveMagic :: "Buffer \<Rightarrow> bool" where
  "hasRiffWaveMagic head =
     (toString_ascii head 0 4 = str_RIFF \<and> toString_ascii head 8 12 = str_WAVE)"

definition frameSyncAt :: "Buffer \<Rightarrow> nat \<Rightarrow> bool" where
  "frameSyncAt buf i = (buf ! i = 0xff \<and> buf ! (i + 1) AND 0xe0 = 0xe0)"

definition validFrameHeaderAt :: "Buffer \<Rightarrow> nat \<Rightarrow> bool" where
  "validFrameHeaderAt buf i =
     (frameSyncAt buf i \<and> drop_bit 1 (buf ! (i + 1)) AND 0x03 = 0x01
      \<and> drop_bit 4 (buf ! (i + 2)) AND 0x0f \<noteq> 0x0f
      \<and> drop_bit 2 (buf ! (i + 2)) AND 0x03 \<noteq> 0x03)"

definition scanWindow :: "Buffer \<Rightarrow> nat list" where
  "scanWindow head = [skipId3Size head ..< min (length head) (skipId3Size head + 4096) - 3]"

definition hasValidFrameHeader :: "Buffer \<Rightarrow> bool" where
  "hasValidFrameHeader head = (\<exists>i\<in>set (scanWindow head). validFrameHeaderAt head i)"

text \<open>The first frame sync of a buffer at or after an offset, with its four header
  bytes inside the buffer.\<close>

definition firstFrameSync :: "Buffer \<Rightarrow> nat \<Rightarrow> nat option" where
  "firstFrameSync head from = find (frameSyncAt head) [from ..< length head - 3]"

text \<open>
  The ID3v2 tag in the words of the format. A source of at least 10 bytes that opens
  with the marker \<^verbatim>\<open>ID3\<close> (codes 73, 68, 51) carries a tag: 10 header bytes, then as many
  bytes as the header's bytes 6 to 9 state as a synchsafe integer, seven bits of each
  byte, the most significant byte first. The marker is compared on the low seven bits of
  its bytes, as a decoding to ASCII does. A source without the marker has a tag of size 0.
\<close>

definition synchsafe :: "byte \<Rightarrow> byte \<Rightarrow> byte \<Rightarrow> byte \<Rightarrow> nat" where
  "synchsafe b6 b7 b8 b9 =
     ((unat b6 mod 128 * 128 + unat b7 mod 128) * 128 + unat b8 mod 128) * 128 + unat b9 mod 128"

definition id3v2TagSize :: "Buffer \<Rightarrow> nat" where
  "id3v2TagSize s =
     (if 10 \<le> length s \<and> map (\<lambda>b. unat b mod 128) (take 3 s) = [73, 68, 51]
      then 10 + synchsafe (s ! 6) (s ! 7) (s ! 8) (s ! 9)
      else 0)"

text \<open>
  The offset of the first frame sync of a source: the least offset at or after the end
  of the tag that shows the sync pattern and has its four header bytes within the first
  8192 bytes of the source. The payload of an MP3 source is the source from that offset
  on, the tag and any bytes before the sync dropped.
\<close>

definition frameSyncOffset :: "Buffer \<Rightarrow> nat option" where
  "frameSyncOffset s = find (frameSyncAt s) [id3v2TagSize s ..< min 8192 (length s) - 3]"

definition mp3Payload :: "Buffer \<Rightarrow> Buffer" where
  "mp3Payload s = (case frameSyncOffset s of Some off \<Rightarrow> drop off s | None \<Rightarrow> [])"


text \<open>Chunks in order with the buffers \<open>fill\<close> between each two consecutive ones.\<close>

fun joinParts :: "Buffer list \<Rightarrow> Buffer list \<Rightarrow> Buffer list" where
  "joinParts fill [] = []"
| "joinParts fill [c] = [c]"
| "joinParts fill (c # d # cs) = c # fill @ joinParts fill (d # cs)"

text \<open>The gap arithmetic in the words of the specification.\<close>

definition frameDurationMs :: "nat \<Rightarrow> real" where
  "frameDurationMs sr = 1152 / real sr * 1000"

definition gapFrameCount :: "GapRounding \<Rightarrow> nat \<Rightarrow> int \<Rightarrow> int" where
  "gapFrameCount rounding sr g =
     max 0 (case rounding of
              Floor \<Rightarrow> \<lfloor>real_of_int g / frameDurationMs sr\<rfloor>
            | Ceil \<Rightarrow> \<lceil>real_of_int g / frameDurationMs sr\<rceil>
            | Nearest \<Rightarrow> round (real_of_int g / frameDurationMs sr))"

definition silenceCopies :: "GapRounding \<Rightarrow> nat \<Rightarrow> int \<Rightarrow> nat" where
  "silenceCopies rounding sr g =
     (let frames = gapFrameCount rounding sr g
      in if 0 < frames then nat (max 1 \<lceil>real_of_int frames * frameDurationMs sr / 100\<rceil>) else 0)"

text \<open>
  The canonical 44-byte header for a payload of \<open>totalData\<close> bytes, and the condition
  under which every value fits the field it is written to.
\<close>

definition canonicalHeader :: "nat \<Rightarrow> nat \<Rightarrow> nat \<Rightarrow> nat \<Rightarrow> Buffer" where
  "canonicalHeader totalData sr ch bps =
     str_RIFF @ le32 (36 + totalData) @ str_WAVE @ str_fmt @ le32 16 @ le16 1 @ le16 ch @ le32 sr
     @ le32 (nat \<lfloor>real sr * real ch * (real bps / 8)\<rfloor>)
     @ le16 (nat \<lfloor>real ch * (real bps / 8)\<rfloor>)
     @ le16 bps @ str_data @ le32 totalData"





definition bytesPerMs :: "nat \<Rightarrow> nat \<Rightarrow> nat \<Rightarrow> nat" where
  "bytesPerMs sr ch bps = nat \<lfloor>real sr * real ch * (real bps / 8) / 1000\<rfloor>"





section \<open>Example inputs\<close>

text \<open>
  Small concrete sources. \<open>wavA\<close> and \<open>wavB\<close> are canonical 8-bit mono files at
  1500 Hz with two and one bytes of samples; \<open>mp3A\<close> is a lone MPEG-1 Layer III
  frame header (128 kbps, 44100 Hz, mono) followed by two bytes.
\<close>

definition wavA :: Buffer where
  "wavA =
    [0x52, 0x49, 0x46, 0x46, 0x26, 0x00, 0x00, 0x00, 0x57, 0x41, 0x56, 0x45, 0x66, 0x6d,
     0x74, 0x20, 0x10, 0x00, 0x00, 0x00, 0x01, 0x00, 0x01, 0x00, 0xdc, 0x05, 0x00, 0x00,
     0xdc, 0x05, 0x00, 0x00, 0x01, 0x00, 0x08, 0x00, 0x64, 0x61, 0x74, 0x61, 0x02, 0x00,
     0x00, 0x00, 0x01, 0x02]"

definition wavB :: Buffer where
  "wavB =
    [0x52, 0x49, 0x46, 0x46, 0x25, 0x00, 0x00, 0x00, 0x57, 0x41, 0x56, 0x45, 0x66, 0x6d,
     0x74, 0x20, 0x10, 0x00, 0x00, 0x00, 0x01, 0x00, 0x01, 0x00, 0xdc, 0x05, 0x00, 0x00,
     0xdc, 0x05, 0x00, 0x00, 0x01, 0x00, 0x08, 0x00, 0x64, 0x61, 0x74, 0x61, 0x01, 0x00,
     0x00, 0x00, 0x03]"

definition mp3A :: Buffer where
  "mp3A = [0xff, 0xfb, 0x90, 0xc0, 0x00, 0x00]"


definition noOverride :: StitchMp3Options where
  "noOverride = \<lparr>gapMs = Some 100, silence = None, keepFirstId3 = None, gapRounding = None\<rparr>"

definition oneAsset :: FileSystem where
  "oneAsset =
     \<lparr>files = (\<lambda>p. None),
      assets = (\<lambda>sr cm br. if sr = 44100 \<and> cm = stereo \<and> br = 128 then Some mp3A else None)\<rparr>"

text \<open>\<open>wavC\<close> is \<open>wavB\<close> at 8000 Hz; \<open>wavShort\<close> declares six bytes of samples and
  holds two; \<open>mp3B\<close> is \<open>mp3A\<close> at 160 kbps.\<close>

definition wavC :: Buffer where
  "wavC =
    [0x52, 0x49, 0x46, 0x46, 0x25, 0x00, 0x00, 0x00, 0x57, 0x41, 0x56, 0x45, 0x66, 0x6d,
     0x74, 0x20, 0x10, 0x00, 0x00, 0x00, 0x01, 0x00, 0x01, 0x00, 0x40, 0x1f, 0x00, 0x00,
     0x40, 0x1f, 0x00, 0x00, 0x01, 0x00, 0x08, 0x00, 0x64, 0x61, 0x74, 0x61, 0x01, 0x00,
     0x00, 0x00, 0x05]"

definition wavShort :: Buffer where
  "wavShort =
    [0x52, 0x49, 0x46, 0x46, 0x2a, 0x00, 0x00, 0x00, 0x57, 0x41, 0x56, 0x45, 0x66, 0x6d,
     0x74, 0x20, 0x10, 0x00, 0x00, 0x00, 0x01, 0x00, 0x01, 0x00, 0xdc, 0x05, 0x00, 0x00,
     0xdc, 0x05, 0x00, 0x00, 0x01, 0x00, 0x08, 0x00, 0x64, 0x61, 0x74, 0x61, 0x06, 0x00,
     0x00, 0x00, 0x07, 0x08]"

definition mp3B :: Buffer where
  "mp3B = [0xff, 0xfb, 0xa0, 0xc0, 0x00, 0x00]"

text \<open>\<open>notAudio\<close> is the text \<^verbatim>\<open>not audio\<close>; \<open>nonPcmWav\<close> is \<open>wavA\<close> with audio
  format 3 (IEEE float) in its \<^verbatim>\<open>fmt \<close> chunk.\<close>

definition notAudio :: Buffer where
  "notAudio = [0x6e, 0x6f, 0x74, 0x20, 0x61, 0x75, 0x64, 0x69, 0x6f]"

definition nonPcmWav :: Buffer where
  "nonPcmWav =
    [0x52, 0x49, 0x46, 0x46, 0x26, 0x00, 0x00, 0x00, 0x57, 0x41, 0x56, 0x45, 0x66, 0x6d,
     0x74, 0x20, 0x10, 0x00, 0x00, 0x00, 0x03, 0x00, 0x01, 0x00, 0xdc, 0x05, 0x00, 0x00,
     0xdc, 0x05, 0x00, 0x00, 0x01, 0x00, 0x08, 0x00, 0x64, 0x61, 0x74, 0x61, 0x02, 0x00,
     0x00, 0x00, 0x01, 0x02]"

text \<open>\<open>taggedMp3\<close> is \<open>mp3A\<close> behind an ID3v2 tag of two bytes; the option records
  and file systems are the ones the examples use, and \<open>mp3AInfo\<close> is the record of
  an MP3 source at 44100 Hz, mono, 128 kbps as the engines' probe returns it.\<close>

definition taggedMp3 :: Buffer where
  "taggedMp3 = [0x49, 0x44, 0x33, 0x03, 0x00, 0x00, 0x00, 0x00, 0x00, 0x02, 0x01, 0x01,
                0xff, 0xfb, 0x90, 0xc0, 0x00, 0x00]"

definition zeroGap :: StitchMp3Options where
  "zeroGap = \<lparr>gapMs = Some 0, silence = None, keepFirstId3 = Some True, gapRounding = None\<rparr>"

definition gap100 :: StitchMp3Options where
  "gap100 = \<lparr>gapMs = Some 100, silence = Some (SilenceBuffer [0x11, 0x22]), keepFirstId3 = None,
              gapRounding = None\<rparr>"

definition mp3AInfo :: Mp3ProbeInfo where
  "mp3AInfo = \<lparr>sampleRate = 44100, channels = 1, bitrateKbps = Some 128, vbr = False,
               id3v2Bytes = None\<rparr>"

definition emptyFs :: FileSystem where
  "emptyFs = \<lparr>files = (\<lambda>p. None), assets = (\<lambda>sr cm br. None)\<rparr>"


text \<open>
  \<open>riffLikeMp3\<close> opens with the RIFF/WAVE magic in 12 bytes and goes on with an MPEG
  frame header; it is shorter than a WAV header. \<open>fmtLikeMp3\<close> is a frame header
  followed by bytes that read as a \<^verbatim>\<open>fmt \<close> chunk.
\<close>

definition riffLikeMp3 :: Buffer where
  "riffLikeMp3 =
    [0x52, 0x49, 0x46, 0x46, 0x00, 0x00, 0x00, 0x00, 0x57, 0x41, 0x56, 0x45, 0xff,
     0xfb, 0x90, 0xc0, 0x00, 0x00, 0x00, 0x00]"

definition fmtLikeMp3 :: Buffer where
  "fmtLikeMp3 =
    [0xff, 0xfb, 0x90, 0xc0, 0x00, 0x00, 0x00, 0x00, 0x66, 0x6d, 0x74, 0x20, 0x10,
     0x00, 0x00, 0x00, 0x01, 0x00, 0x01, 0x00, 0xdc, 0x05, 0x00, 0x00, 0xdc, 0x05,
     0x00, 0x00, 0x01, 0x00, 0x08, 0x00]"


text \<open>
  \<open>mp3Frame\<close> is a whole MPEG-1 Layer III frame of 417 bytes (128 kbps, 44100 Hz, mono,
  no CRC) with an all-zero body, and \<open>fourFrames\<close> a file of four of them.
  \<open>bigTagMp3\<close> is that file behind an ID3v2 tag of 8192 bytes: the header, which states
  a size of 8182 as the synchsafe bytes \<open>00 00 3f 76\<close>, and 8182 bytes of padding.
\<close>

definition mp3Frame :: Buffer where
  "mp3Frame = [0xff, 0xfb, 0x90, 0xc0] @ replicate 413 0"

definition fourFrames :: Buffer where
  "fourFrames = mp3Frame @ mp3Frame @ mp3Frame @ mp3Frame"

definition bigTagMp3 :: Buffer where
  "bigTagMp3 =
     [0x49, 0x44, 0x33, 0x03, 0x00, 0x00, 0x00, 0x00, 0x3f, 0x76] @ replicate 8182 0
     @ fourFrames"

text \<open>
  The metadata library in the examples: a table of the format it reports for each
  example file, and an error for every other input. A WAV file is reported with the
  container \<^verbatim>\<open>WAVE\<close> and the numbers of its \<^verbatim>\<open>fmt \<close> chunk, whatever its audio format
  code; an MP3 file with the container \<^verbatim>\<open>MPEG\<close> and the numbers of its first frame
  header.
\<close>

definition waveFormat :: "nat \<Rightarrow> nat \<Rightarrow> nat \<Rightarrow> IFormat" where
  "waveFormat sr ch bps =
     \<lparr>container = Some ''WAVE'', codec = Some ''PCM'', sampleRate_fmt = Some sr,
      numberOfChannels = Some ch, bitsPerSample_fmt = Some bps, bitrate = Some (sr * ch * bps),
      codecProfile = None\<rparr>"

definition mpegFormat :: "nat \<Rightarrow> nat \<Rightarrow> nat \<Rightarrow> IFormat" where
  "mpegFormat sr ch kbps =
     \<lparr>container = Some ''MPEG'', codec = Some ''MPEG 1 Layer 3'', sampleRate_fmt = Some sr,
      numberOfChannels = Some ch, bitsPerSample_fmt = None, bitrate = Some (kbps * 1000),
      codecProfile = Some ''CBR''\<rparr>"

definition answers :: "(Buffer \<times> IFormat) list \<Rightarrow> MetadataLibrary" where
  "answers tbl b = (case map_of tbl b of Some f \<Rightarrow> Inr f | None \<Rightarrow> Inl ''unrecognized'')"

definition wavLibrary :: MetadataLibrary where
  "wavLibrary = answers
     [(wavA, waveFormat 1500 1 8), (wavB, waveFormat 1500 1 8), (wavC, waveFormat 8000 1 8),
      (nonPcmWav, waveFormat 1500 1 8)]"

definition mp3Library :: MetadataLibrary where
  "mp3Library = answers
     [(mp3A, mpegFormat 44100 1 128), (mp3B, mpegFormat 44100 1 160),
      (taggedMp3, mpegFormat 44100 1 128), (bigTagMp3, mpegFormat 44100 1 128),
      (fourFrames, mpegFormat 44100 1 128)]"






section \<open>Properties of the probe\<close>

lemmas eval_defs =
  probe_def readBytes_def subarray_def parseWavHeader_def parseWavHeader_walk.simps
  toString_ascii_def str_RIFF_def str_WAVE_def str_fmt_def str_data_def str_ID3_def
  read_fmt_def readUInt16LE_def readUInt32LE_def u16le_def u32le_def Let_def readUInt8_def
  skipId3Size_def parseMp3Header_def parseMp3Header_scan.simps parseMp3Header_at_def
  bitrateTable_def

lemma probe_wavA:
  "probe wavA =
     Inr (Wav \<lparr>sampleRate = 1500, channels = 1, bitsPerSample = 8, dataBytes = Some 2\<rparr>)"
  by (simp add: eval_defs wavA_def)

lemma probe_mp3A:
  "probe mp3A =
     Inr (Mp3 \<lparr>sampleRate = 44100, channels = 1, bitrateKbps = Some 128, vbr = False,
               id3v2Bytes = Some 0\<rparr>)"
  by (simp add: eval_defs mp3A_def)

lemma and3_cases: "(x :: byte) AND 3 \<noteq> 3 \<Longrightarrow> unat (x AND 3) < 3"
proof -
  assume ne: "x AND 3 \<noteq> 3"
  have "x AND 3 \<le> 3" by (rule word_and_le1)
  then have le: "unat (x AND 3) \<le> 3" by (simp add: word_le_nat_alt)
  have "unat (x AND 3) \<noteq> 3"
  proof
    assume "unat (x AND 3) = 3"
    then have "unat (x AND 3) = unat (3 :: byte)" by simp
    then have "x AND 3 = 3" by (simp only: word_unat_eq_iff)
    with ne show False by simp
  qed
  with le show ?thesis by simp
qed

lemma sampleRates1_pos: "n < 3 \<Longrightarrow> 0 < [44100, 48000, 32000 :: nat] ! n"
  by (cases n; cases "n - 1"; cases "n - 2") auto

lemma sampleRates2_pos: "n < 3 \<Longrightarrow> 0 < [22050, 24000, 16000 :: nat] ! n"
  by (cases n; cases "n - 1"; cases "n - 2") auto

lemma parseMp3Header_at_Some:
  assumes "parseMp3Header_at buf st i = Some m"
  shows "0 < sampleRate m \<and> (channels m = 1 \<or> channels m = 2) \<and> \<not> vbr m
         \<and> id3v2Bytes m = Some st"
proof -
  define b3 where "b3 = readUInt8 buf (i + 2)"
  define idx where "idx = unat (drop_bit 2 b3 AND 0x03)"
  from assms have ne: "drop_bit 2 b3 AND 0x03 \<noteq> 0x03"
    by (auto simp: parseMp3Header_at_def Let_def b3_def split: if_splits)
  then have lt: "idx < 3" unfolding idx_def by (rule and3_cases)
  from assms obtain sr ch br where
    m: "m = \<lparr>sampleRate = sr, channels = ch, bitrateKbps = br, vbr = False,
              id3v2Bytes = Some st\<rparr>"
    and sr: "sr = [44100, 48000, 32000] ! idx \<or> sr = [22050, 24000, 16000] ! idx"
    and ch: "ch = 1 \<or> ch = 2"
    by (auto simp: parseMp3Header_at_def Let_def b3_def idx_def split: if_splits)
  from sr lt have "0 < sr" using sampleRates1_pos sampleRates2_pos by blast
  with m ch show ?thesis by auto
qed

lemma parseMp3Header_scan_Some:
  "parseMp3Header_scan buf st mx i = Some m \<Longrightarrow>
     \<exists>j. i \<le> j \<and> j + 4 \<le> mx \<and> parseMp3Header_at buf st j = Some m"
proof (induction buf st mx i rule: parseMp3Header_scan.induct)
  case (1 buf st mx i)
  note unfold = parseMp3Header_scan.simps[of buf st mx i]
  show ?case
  proof (cases "i + 4 \<le> mx")
    case False
    with "1.prems" unfold show ?thesis by simp
  next
    case True
    show ?thesis
    proof (cases "parseMp3Header_at buf st i")
      case None
      with True "1.prems" unfold have "parseMp3Header_scan buf st mx (i + 1) = Some m"
        by simp
      from "1.IH"[OF True None this] obtain j where
        "i + 1 \<le> j" "j + 4 \<le> mx" "parseMp3Header_at buf st j = Some m"
        by blast
      then show ?thesis by (intro exI[of _ j]) simp
    next
      case (Some a)
      with True "1.prems" unfold have "a = m" by simp
      with Some True show ?thesis by (intro exI[of _ i]) simp
    qed
  qed
qed

lemma parseWavHeader_Some:
  "parseWavHeader buf = Inr (Some w) \<Longrightarrow>
     0 < sampleRate w \<and> 0 < channels w \<and> 0 < bitsPerSample w"
  by (auto simp: parseWavHeader_def split: if_splits sum.splits option.splits)

text \<open>
  Claim C8. Whenever \<open>probe\<close> succeeds, the record it returns has a positive sample
  rate and a positive channel count, and the other fields of its variant are set: a WAV
  record has positive bits per sample; an MP3 record has the VBR flag (always false) and
  the ID3v2 size that was skipped. The result type has no third case: a probe returns a
  whole record of one variant or an error.
\<close>

theorem probe_success_populated:
  assumes "probe source = Inr info"
  shows "case info of
           Wav w \<Rightarrow> 0 < sampleRate w \<and> 0 < channels w \<and> 0 < bitsPerSample w
         | Mp3 m \<Rightarrow> 0 < sampleRate m \<and> 0 < channels m \<and> \<not> vbr m
                    \<and> id3v2Bytes m = Some (skipId3Size (readBytes source 0 8192))"
  using assms
  by (auto simp: probe_def Let_def parseMp3Header_def
      split: sum.splits option.splits ProbeInfo.splits
      dest!: parseWavHeader_Some parseMp3Header_scan_Some parseMp3Header_at_Some)

theorem probe_success_populated_witness:
  "probe mp3A =
     Inr (Mp3 \<lparr>sampleRate = 44100, channels = 1, bitrateKbps = Some 128, vbr = False,
               id3v2Bytes = Some 0\<rparr>)
   \<and> skipId3Size (readBytes mp3A 0 8192) = 0
   \<and> probe wavA =
     Inr (Wav \<lparr>sampleRate = 1500, channels = 1, bitsPerSample = 8, dataBytes = Some 2\<rparr>)"
  using probe_success_populated[OF probe_mp3A] probe_success_populated[OF probe_wavA]
    probe_mp3A probe_wavA
  by simp

subsection \<open>Failures of the probe\<close>

lemma parseMp3Header_at_None: "parseMp3Header_at buf st i = None \<longleftrightarrow> \<not> validFrameHeaderAt buf i"
  by (auto simp: parseMp3Header_at_def validFrameHeaderAt_def frameSyncAt_def readUInt8_def Let_def)

lemma parseMp3Header_None:
  assumes "\<not> hasValidFrameHeader head"
  shows "parseMp3Header head (skipId3Size head) = None"
proof (cases "parseMp3Header head (skipId3Size head)")
  case None then show ?thesis .
next
  case (Some m)
  then obtain j where j: "skipId3Size head \<le> j" "j + 4 \<le> min (length head) (skipId3Size head + 4096)"
     "parseMp3Header_at head (skipId3Size head) j = Some m"
    unfolding parseMp3Header_def Let_def by (blast dest: parseMp3Header_scan_Some)
  then have "j \<in> set (scanWindow head)" by (auto simp: scanWindow_def)
  moreover from j have "validFrameHeaderAt head j" using parseMp3Header_at_None[of head "skipId3Size head" j] by auto
  ultimately show ?thesis using assms by (auto simp: hasValidFrameHeader_def)
qed

lemma read_fmt_error: "read_fmt buf off = Inl e \<Longrightarrow> e = RangeError"
  by (auto simp: read_fmt_def readUInt16LE_def readUInt32LE_def split: if_splits sum.splits)

lemma walk_end:
  "\<not> offset + 8 \<le> length buf \<Longrightarrow> parseWavHeader_walk buf offset ff v = Inr (Some (ff, v))"
  by (subst parseWavHeader_walk.simps) simp

lemma walk_fmt:
  "offset + 8 \<le> length buf \<Longrightarrow> toString_ascii buf offset (offset + 4) = str_fmt \<Longrightarrow>
   parseWavHeader_walk buf offset ff v =
     (case read_fmt buf offset of
        Inl e \<Rightarrow> Inl e
      | Inr (audioFormat, ch, sr, bps) \<Rightarrow>
          if audioFormat \<noteq> 1 then Inr None
          else parseWavHeader_walk buf (offset + 8 + u32le buf (offset + 4)) True
                 (v\<lparr>sampleRate := sr, channels := ch, bitsPerSample := bps\<rparr>))"
  by (subst parseWavHeader_walk.simps) (simp add: Let_def)

lemma walk_data:
  "offset + 8 \<le> length buf \<Longrightarrow> toString_ascii buf offset (offset + 4) \<noteq> str_fmt \<Longrightarrow>
   toString_ascii buf offset (offset + 4) = str_data \<Longrightarrow>
   parseWavHeader_walk buf offset ff v =
     parseWavHeader_walk buf (offset + 8 + u32le buf (offset + 4)) ff
       (v\<lparr>dataBytes := Some (u32le buf (offset + 4))\<rparr>)"
  by (subst parseWavHeader_walk.simps) (simp add: Let_def)

lemma walk_other:
  "offset + 8 \<le> length buf \<Longrightarrow> toString_ascii buf offset (offset + 4) \<noteq> str_fmt \<Longrightarrow>
   toString_ascii buf offset (offset + 4) \<noteq> str_data \<Longrightarrow>
   parseWavHeader_walk buf offset ff v =
     parseWavHeader_walk buf (offset + 8 + u32le buf (offset + 4)) ff v"
  by (subst parseWavHeader_walk.simps) (simp add: Let_def)

lemma parseWavHeader_walk_error:
  "parseWavHeader_walk buf off ff v = Inl e \<Longrightarrow> e = RangeError"
proof (induction buf off ff v rule: parseWavHeader_walk.induct)
  case (1 buf offset fmtFound v)
  show ?case
  proof (cases "offset + 8 \<le> length buf")
    case False
    with "1.prems" show ?thesis by (simp add: walk_end)
  next
    case True
    show ?thesis
    proof (cases "toString_ascii buf offset (offset + 4) = str_fmt")
      case isfmt: True
      show ?thesis
      proof (cases "read_fmt buf offset")
        case (Inl e')
        with "1.prems" True isfmt have "e = e'" by (simp add: walk_fmt)
        with Inl read_fmt_error show ?thesis by blast
      next
        case (Inr r)
        obtain af ch sr bps where r: "r = (af, ch, sr, bps)" by (cases r) auto
        show ?thesis
        proof (cases "af = 1")
          case False
          with "1.prems" True isfmt Inr r show ?thesis by (simp add: walk_fmt)
        next
          case af: True
          with "1.prems" True isfmt Inr r
          have "parseWavHeader_walk buf (offset + 8 + u32le buf (offset + 4)) True
                 (v\<lparr>sampleRate := sr, channels := ch, bitsPerSample := bps\<rparr>) = Inl e"
            by (simp add: walk_fmt)
          moreover have "\<not> af \<noteq> 1" using af by simp
          ultimately show ?thesis
            using "1.IH"(1)[OF True refl refl refl isfmt Inr[unfolded r] refl refl refl] by blast
        qed
      qed
    next
      case nofmt: False
      show ?thesis
      proof (cases "toString_ascii buf offset (offset + 4) = str_data")
        case isdata: True
        with "1.prems" True nofmt
        have "parseWavHeader_walk buf (offset + 8 + u32le buf (offset + 4)) fmtFound
                (v\<lparr>dataBytes := Some (u32le buf (offset + 4))\<rparr>) = Inl e"
          by (simp add: walk_data)
        then show ?thesis using "1.IH"(2)[OF True refl refl refl nofmt isdata] by blast
      next
        case nodata: False
        with "1.prems" True nofmt
        have "parseWavHeader_walk buf (offset + 8 + u32le buf (offset + 4)) fmtFound v = Inl e"
          by (simp add: walk_other)
        then show ?thesis using "1.IH"(3)[OF True refl refl refl nofmt nodata] by blast
      qed
    qed
  qed
qed
lemma parseWavHeader_error: "parseWavHeader buf = Inl e \<Longrightarrow> e = RangeError"
  by (auto simp: parseWavHeader_def split: if_splits sum.splits option.splits dest: parseWavHeader_walk_error)

lemma parseWavHeader_no_magic: "\<not> hasRiffWaveMagic head \<Longrightarrow> parseWavHeader head = Inr None"
  by (auto simp: parseWavHeader_def hasRiffWaveMagic_def)

lemma parseWavHeader_non_pcm:
  assumes "44 \<le> length head" "toString_ascii head 12 16 = str_fmt" "u16le head 20 \<noteq> 1"
  shows "parseWavHeader head = Inr None"
proof -
  have "read_fmt head 12 = Inr (u16le head 20, u16le head 22, u32le head 24, u16le head 34)"
    using assms(1) by (simp add: read_fmt_def readUInt16LE_def readUInt32LE_def)
  then have "parseWavHeader_walk head 12 False v = Inr None" for v
    using assms by (subst parseWavHeader_walk.simps) (simp add: Let_def)
  then show ?thesis by (simp add: parseWavHeader_def)
qed

text \<open>
  Claim C5, as amended. The probe has one failure of its own, the unsupported-format
  error; the only other error it can end with is a read out of range inside a
  \<^verbatim>\<open>fmt \<close> chunk. It fails with the unsupported-format error whenever the head (the
  first 8192 bytes) has neither the RIFF/WAVE magic nor a frame header that the scan
  accepts in its window. A head of at least 44 bytes whose first chunk is a \<^verbatim>\<open>fmt \<close>
  chunk with an audio format code other than 1, and which holds no acceptable frame
  header either, fails with that same error: a non-PCM WAV is not told apart from
  unrecognized data.
\<close>

theorem probe_rejects_unrecognized:
  "(\<not> hasRiffWaveMagic (readBytes source 0 8192) \<and> \<not> hasValidFrameHeader (readBytes source 0 8192)
      \<longrightarrow> probe source = Inl UnsupportedFormat)
   \<and> (44 \<le> length (readBytes source 0 8192)
       \<and> toString_ascii (readBytes source 0 8192) 12 16 = str_fmt
       \<and> u16le (readBytes source 0 8192) 20 \<noteq> 1
       \<and> \<not> hasValidFrameHeader (readBytes source 0 8192)
      \<longrightarrow> probe source = Inl UnsupportedFormat)
   \<and> (\<forall>e. probe source = Inl e \<longrightarrow> e = UnsupportedFormat \<or> e = RangeError)"
proof (intro conjI impI allI)
  assume "\<not> hasRiffWaveMagic (readBytes source 0 8192) \<and> \<not> hasValidFrameHeader (readBytes source 0 8192)"
  then show "probe source = Inl UnsupportedFormat"
    by (simp add: probe_def Let_def parseWavHeader_no_magic parseMp3Header_None)
next
  assume "44 \<le> length (readBytes source 0 8192)
       \<and> toString_ascii (readBytes source 0 8192) 12 16 = str_fmt
       \<and> u16le (readBytes source 0 8192) 20 \<noteq> 1
       \<and> \<not> hasValidFrameHeader (readBytes source 0 8192)"
  then show "probe source = Inl UnsupportedFormat"
    by (simp add: probe_def Let_def parseWavHeader_non_pcm parseMp3Header_None)
next
  fix e assume "probe source = Inl e"
  then show "e = UnsupportedFormat \<or> e = RangeError"
    by (auto simp: probe_def Let_def split: sum.splits option.splits dest: parseWavHeader_error)
qed


theorem probe_rejects_unrecognized_witness:
  "\<not> hasRiffWaveMagic (readBytes notAudio 0 8192)
   \<and> \<not> hasValidFrameHeader (readBytes notAudio 0 8192)
   \<and> probe notAudio = Inl UnsupportedFormat
   \<and> 44 \<le> length (readBytes nonPcmWav 0 8192)
   \<and> toString_ascii (readBytes nonPcmWav 0 8192) 12 16 = str_fmt
   \<and> u16le (readBytes nonPcmWav 0 8192) 20 \<noteq> 1
   \<and> \<not> hasValidFrameHeader (readBytes nonPcmWav 0 8192)
   \<and> probe nonPcmWav = Inl UnsupportedFormat"
  using probe_rejects_unrecognized[of notAudio] probe_rejects_unrecognized[of nonPcmWav]
  by (simp add: hasValidFrameHeader_def scanWindow_def validFrameHeaderAt_def frameSyncAt_def
      hasRiffWaveMagic_def notAudio_def nonPcmWav_def readBytes_def subarray_def
      toString_ascii_def str_RIFF_def str_WAVE_def str_fmt_def str_ID3_def skipId3Size_def
      u16le_def)

text \<open>
  The claim as the specification words it asks for a malformed-header error, distinct
  from the unsupported-format error, for a RIFF/WAVE file that is not PCM. The file
  \<open>nonPcmWav\<close> has the magic and audio format 3, and the probe ends on it with the
  error it gives for the text \<open>notAudio\<close>.
\<close>

theorem probe_non_pcm_counterexample:
  "hasRiffWaveMagic (readBytes nonPcmWav 0 8192) \<and> u16le nonPcmWav 20 = 3
   \<and> probe nonPcmWav = Inl UnsupportedFormat \<and> probe notAudio = Inl UnsupportedFormat"
  by (simp add: eval_defs nonPcmWav_def notAudio_def hasRiffWaveMagic_def)

section \<open>Properties of the silence resolver\<close>




section \<open>The copy loop of the file mode\<close>

lemma readBytes_length: "length (readBytes src p n) = min n (length src - p)"
  by (simp add: readBytes_def subarray_def)

lemma readBytes_take_drop: "readBytes src p n = take n (drop p src)"
  by (simp add: readBytes_def subarray_def)

lemma copyLoop_returns:
  "position + remaining \<le> length src \<Longrightarrow>
     copyLoop src position remaining out = Some (out @ take remaining (drop position src))"
proof (induction remaining arbitrary: position out rule: less_induct)
  case (less remaining)
  show ?case
  proof (cases "remaining > 0")
    case False
    then show ?thesis by (subst copyLoop.simps) simp
  next
    case True
    define toRead where "toRead = min (64 * 1024) remaining"
    define chunk where "chunk = readBytes src position toRead"
    have tr: "0 < toRead" "toRead \<le> remaining" using True by (auto simp: toRead_def)
    have len: "length chunk = toRead"
      using less.prems tr by (simp add: chunk_def readBytes_length)
    have step: "copyLoop src position remaining out
          = copyLoop src (position + length chunk) (remaining - length chunk) (out @ chunk)"
      using True by (subst copyLoop.simps) (simp add: Let_def toRead_def chunk_def)
    have "copyLoop src (position + toRead) (remaining - toRead) (out @ chunk)
          = Some ((out @ chunk) @ take (remaining - toRead) (drop (position + toRead) src))"
      using less.prems tr by (intro less.IH) auto
    moreover have "chunk @ take (remaining - toRead) (drop (position + toRead) src)
          = take remaining (drop position src)"
    proof -
      have "take remaining (drop position src)
            = take toRead (drop position src)
              @ take (remaining - toRead) (drop toRead (drop position src))"
        using tr by (metis le_add_diff_inverse take_add)
      then show ?thesis by (simp add: chunk_def readBytes_take_drop add.commute)
    qed
    ultimately show ?thesis using step len by simp
  qed
qed

lemma copyLoop_Some_fits:
  assumes "copyLoop src0 position0 remaining0 out0 = Some res0"
  shows "remaining0 = 0 \<or> position0 + remaining0 \<le> length src0"
proof (rule copyLoop.raw_induct[where
        P = "\<lambda>s p r out res. r = 0 \<or> p + r \<le> length s", OF _ assms])
  fix f :: "Buffer \<Rightarrow> nat \<Rightarrow> nat \<Rightarrow> Buffer \<Rightarrow> Buffer option"
  fix s :: Buffer and p r :: nat and out res :: Buffer
  assume IH: "\<And>a b c d y. f a b c d = Some y \<Longrightarrow> c = 0 \<or> b + c \<le> length a"
  assume step: "(if 0 < r
      then let toRead = min (64 * 1024) r; chunk = readBytes s p toRead
           in f s (p + length chunk) (r - length chunk) (out @ chunk)
      else Some out) = Some res"
  show "r = 0 \<or> p + r \<le> length s"
  proof (cases "r > 0")
    case False
    then show ?thesis by simp
  next
    case True
    define chunk where "chunk = readBytes s p (min (64 * 1024) r)"
    from True step have "f s (p + length chunk) (r - length chunk) (out @ chunk) = Some res"
      by (simp add: Let_def chunk_def)
    from IH[OF this]
    have "r - length chunk = 0 \<or> p + length chunk + (r - length chunk) \<le> length s" .
    moreover have "length chunk \<le> r"
      "length chunk = min (min (64 * 1024) r) (length s - p)"
      by (simp_all add: chunk_def readBytes_length)
    ultimately show ?thesis by auto
  qed
qed

text \<open>
  Claim C9. When the declared size of a part's data chunk does not exceed the bytes
  that the source holds from the payload offset on, the copy loop of the file mode
  ends, having appended exactly the payload to the output, and every read it issues on
  the way (at a position inside the payload, for the bytes that remain) returns at least
  one byte. When the declared size is positive and exceeds what the source holds, the
  loop never ends.
\<close>

theorem copyLoop_terminates_when_declared_fits:
  "(start part + len part \<le> length (opened part) \<longrightarrow>
      copyLoop (opened part) (start part) (len part) out
        = Some (out @ readBytes (opened part) (start part) (len part))
      \<and> (\<forall>position remaining. 0 < remaining
            \<and> position + remaining = start part + len part
          \<longrightarrow> 0 < length (readBytes (opened part) position (min (64 * 1024) remaining))))
   \<and> (0 < len part \<and> length (opened part) < start part + len part \<longrightarrow>
      copyLoop (opened part) (start part) (len part) out = None)"
proof (intro conjI impI allI)
  assume fits: "start part + len part \<le> length (opened part)"
  then show "copyLoop (opened part) (start part) (len part) out
        = Some (out @ readBytes (opened part) (start part) (len part))"
    by (simp add: copyLoop_returns readBytes_take_drop)
  fix position remaining
  assume "0 < remaining \<and> position + remaining = start part + len part"
  with fits show "0 < length (readBytes (opened part) position (min (64 * 1024) remaining))"
    by (simp add: readBytes_length)
next
  assume over: "0 < len part \<and> length (opened part) < start part + len part"
  show "copyLoop (opened part) (start part) (len part) out = None"
  proof (cases "copyLoop (opened part) (start part) (len part) out")
    case None
    then show ?thesis .
  next
    case (Some res)
    from copyLoop_Some_fits[OF this] over show ?thesis by simp
  qed
qed

theorem copyLoop_terminates_when_declared_fits_witness:
  "start \<lparr>opened = wavA, start = 44, len = 2\<rparr> + len \<lparr>opened = wavA, start = 44, len = 2\<rparr>
      \<le> length (opened \<lparr>opened = wavA, start = 44, len = 2\<rparr>)
   \<and> copyLoop wavA 44 2 [0x2a] = Some [0x2a, 0x01, 0x02]
   \<and> 0 < length (readBytes wavA 45 (min (64 * 1024) 1))
   \<and> length wavShort < 44 + 6
   \<and> copyLoop wavShort 44 6 [] = None"
  using copyLoop_terminates_when_declared_fits[of "\<lparr>opened = wavA, start = 44, len = 2\<rparr>" "[0x2a]"]
    copyLoop_terminates_when_declared_fits[of "\<lparr>opened = wavShort, start = 44, len = 6\<rparr>" "[]"]
  by (simp add: wavA_def wavShort_def readBytes_def subarray_def)
section \<open>The engines' probe at the example files\<close>

lemma probe_mm_wave:
  assumes "mm s = Inr (waveFormat sr ch bps)" "0 < sr" "0 < ch"
  shows "probe_mm mm s
         = Inr (Wav \<lparr>sampleRate = sr, channels = ch, bitsPerSample = bps, dataBytes = None\<rparr>)"
  using assms by (simp add: probe_mm_def waveFormat_def toLowerCase_def)

lemma round_kbps: "nat (round (real (kbps * 1000) / 1000)) = kbps"
  by simp

lemma probe_mm_mpeg:
  assumes "mm s = Inr (mpegFormat sr ch kbps)" "0 < sr" "0 < ch" "0 < kbps"
  shows "probe_mm mm s
         = Inr (Mp3 \<lparr>sampleRate = sr, channels = ch, bitrateKbps = Some kbps, vbr = False,
                      id3v2Bytes = None\<rparr>)"
  using assms by (simp add: probe_mm_def mpegFormat_def toLowerCase_def round_kbps)

lemma wavLibrary_answers:
  "wavLibrary wavA = Inr (waveFormat 1500 1 8)"
  "wavLibrary wavB = Inr (waveFormat 1500 1 8)"
  "wavLibrary wavC = Inr (waveFormat 8000 1 8)"
  "wavLibrary nonPcmWav = Inr (waveFormat 1500 1 8)"
  by (simp_all add: wavLibrary_def answers_def wavA_def wavB_def wavC_def nonPcmWav_def)

lemma example_lengths:
  "length mp3A = 6" "length mp3B = 6" "length taggedMp3 = 18" "length fourFrames = 1668"
  "length bigTagMp3 = 9860"
  by (simp_all add: mp3A_def mp3B_def taggedMp3_def fourFrames_def mp3Frame_def bigTagMp3_def)

lemma fourFrames_other:
  "mp3A \<noteq> fourFrames" "mp3B \<noteq> fourFrames" "taggedMp3 \<noteq> fourFrames"
  "bigTagMp3 \<noteq> fourFrames"
  using example_lengths by auto

lemma mp3Library_answers:
  "mp3Library mp3A = Inr (mpegFormat 44100 1 128)"
  "mp3Library mp3B = Inr (mpegFormat 44100 1 160)"
  "mp3Library taggedMp3 = Inr (mpegFormat 44100 1 128)"
  "mp3Library bigTagMp3 = Inr (mpegFormat 44100 1 128)"
  "mp3Library fourFrames = Inr (mpegFormat 44100 1 128)"
proof -
  show "mp3Library mp3A = Inr (mpegFormat 44100 1 128)"
    "mp3Library mp3B = Inr (mpegFormat 44100 1 160)"
    "mp3Library taggedMp3 = Inr (mpegFormat 44100 1 128)"
    "mp3Library bigTagMp3 = Inr (mpegFormat 44100 1 128)"
    by (simp_all add: mp3Library_def answers_def mp3A_def mp3B_def taggedMp3_def bigTagMp3_def)
  show "mp3Library fourFrames = Inr (mpegFormat 44100 1 128)"
    by (simp add: mp3Library_def answers_def fourFrames_other fourFrames_other[symmetric])
qed

lemma probedWavParams_examples:
  "probedWavParams wavLibrary wavA = Some (1500, 1, 8)"
  "probedWavParams wavLibrary wavB = Some (1500, 1, 8)"
  "probedWavParams wavLibrary wavC = Some (8000, 1, 8)"
  "probedWavParams wavLibrary nonPcmWav = Some (1500, 1, 8)"
  by (simp_all add: probedWavParams_def probe_mm_wave[where mm = wavLibrary] wavLibrary_answers)

lemma probedMp3Params_examples:
  "probedMp3Params mp3Library mp3A = Some (44100, 1, Some 128)"
  "probedMp3Params mp3Library mp3B = Some (44100, 1, Some 160)"
  "probedMp3Params mp3Library taggedMp3 = Some (44100, 1, Some 128)"
  "probedMp3Params mp3Library bigTagMp3 = Some (44100, 1, Some 128)"
  "probedMp3Params mp3Library fourFrames = Some (44100, 1, Some 128)"
  by (simp_all add: probedMp3Params_def probe_mm_mpeg[where mm = mp3Library] mp3Library_answers)

section \<open>Parameter mismatch\<close>

lemma probedWavParams_Some:
  "probedWavParams mm s = Some p \<Longrightarrow>
     \<exists>w. probe_mm mm s = Inr (Wav w) \<and> p = (sampleRate w, channels w, bitsPerSample w)"
  by (auto simp: probedWavParams_def split: sum.splits ProbeInfo.splits)

lemma probedMp3Params_Some:
  "probedMp3Params mm s = Some p \<Longrightarrow>
     \<exists>m. probe_mm mm s = Inr (Mp3 m) \<and> p = (sampleRate m, channels m, bitrateKbps m)"
  by (auto simp: probedMp3Params_def split: sum.splits ProbeInfo.splits)

lemma validateWav_mismatch:
  assumes "\<forall>s\<in>set srcs. probedWavParams mm s \<noteq> None"
    and "\<exists>s\<in>set srcs. probedWavParams mm s \<noteq> Some (sampleRate first, channels first, bitsPerSample first)"
  shows "validateWav mm first srcs = Inl WavParameterMismatch"
  using assms
proof (induction srcs)
  case Nil
  then show ?case by simp
next
  case (Cons s rest)
  from Cons.prems(1) obtain p where p: "probedWavParams mm s = Some p" by auto
  from probedWavParams_Some[OF p] obtain w where w: "probe_mm mm s = Inr (Wav w)"
    "p = (sampleRate w, channels w, bitsPerSample w)" by blast
  show ?case
  proof (cases "p = (sampleRate first, channels first, bitsPerSample first)")
    case False
    with w show ?thesis by auto
  next
    case True
    with p Cons.prems have "\<forall>s\<in>set rest. probedWavParams mm s \<noteq> None"
      "\<exists>s\<in>set rest. probedWavParams mm s \<noteq> Some (sampleRate first, channels first, bitsPerSample first)"
      by auto
    from Cons.IH[OF this] True w show ?thesis by simp
  qed
qed

lemma validateMp3_mismatch:
  assumes "\<forall>s\<in>set srcs. probedMp3Params mm s \<noteq> None"
    and "\<exists>s\<in>set srcs. probedMp3Params mm s \<noteq> Some (sampleRate first, channels first, bitrateKbps first)"
  shows "\<exists>e. isParameterMismatch e \<and> validateMp3 mm first srcs = Inl e"
  using assms
proof (induction srcs)
  case Nil
  then show ?case by simp
next
  case (Cons s rest)
  from Cons.prems(1) obtain p where p: "probedMp3Params mm s = Some p" by auto
  from probedMp3Params_Some[OF p] obtain m where m: "probe_mm mm s = Inr (Mp3 m)"
    "p = (sampleRate m, channels m, bitrateKbps m)" by blast
  show ?case
  proof (cases "p = (sampleRate first, channels first, bitrateKbps first)")
    case False
    with m show ?thesis by (auto simp: isParameterMismatch_def)
  next
    case True
    with p Cons.prems have "\<forall>s\<in>set rest. probedMp3Params mm s \<noteq> None"
      "\<exists>s\<in>set rest. probedMp3Params mm s \<noteq> Some (sampleRate first, channels first, bitrateKbps first)"
      by auto
    from Cons.IH[OF this] True m show ?thesis by simp
  qed
qed

lemma stitchWav_mismatch:
  assumes all: "\<forall>s\<in>set sources. probedWavParams mm s \<noteq> None"
    and diff: "\<exists>a\<in>set sources. \<exists>b\<in>set sources. probedWavParams mm a \<noteq> probedWavParams mm b"
  shows "stitchWav_plan mm sources g = Inl WavParameterMismatch"
proof -
  from diff have ne: "sources \<noteq> []" by auto
  then have hd_in: "hd sources \<in> set sources" by simp
  with all obtain p where p: "probedWavParams mm (hd sources) = Some p" by auto
  from probedWavParams_Some[OF p] obtain first where first: "probe_mm mm (hd sources) = Inr (Wav first)"
    "p = (sampleRate first, channels first, bitsPerSample first)" by blast
  from diff obtain a b where ab: "a \<in> set sources" "b \<in> set sources" "probedWavParams mm a \<noteq> probedWavParams mm b" by blast
  then have "probedWavParams mm a \<noteq> Some p \<or> probedWavParams mm b \<noteq> Some p" by auto
  with ab first have "\<exists>s\<in>set sources. probedWavParams mm s \<noteq> Some (sampleRate first, channels first, bitsPerSample first)"
    by auto
  from validateWav_mismatch[OF all this] ne first show ?thesis
    by (simp add: stitchWav_plan_def)
qed

lemma stitchMp3_mismatch:
  assumes all: "\<forall>s\<in>set sources. probedMp3Params mm s \<noteq> None"
    and diff: "\<exists>a\<in>set sources. \<exists>b\<in>set sources. probedMp3Params mm a \<noteq> probedMp3Params mm b"
  shows "\<exists>e. isParameterMismatch e \<and> stitchMp3_parts mm fs sources opts = Inl e"
proof -
  from diff have ne: "sources \<noteq> []" by auto
  then have hd_in: "hd sources \<in> set sources" by simp
  with all obtain p where p: "probedMp3Params mm (hd sources) = Some p" by auto
  from probedMp3Params_Some[OF p] obtain first where first: "probe_mm mm (hd sources) = Inr (Mp3 first)"
    "p = (sampleRate first, channels first, bitrateKbps first)" by blast
  from diff obtain a b where ab: "a \<in> set sources" "b \<in> set sources" "probedMp3Params mm a \<noteq> probedMp3Params mm b" by blast
  then have "probedMp3Params mm a \<noteq> Some p \<or> probedMp3Params mm b \<noteq> Some p" by auto
  with ab obtain s where s: "s \<in> set sources" "probedMp3Params mm s \<noteq> Some p" by blast
  with p have "s \<noteq> hd sources" by auto
  with s ne have "s \<in> set (tl sources)" by (cases sources) auto
  with s first have ex: "\<exists>s\<in>set (tl sources). probedMp3Params mm s \<noteq> Some (sampleRate first, channels first, bitrateKbps first)"
    by auto
  from all ne have "\<forall>s\<in>set (tl sources). probedMp3Params mm s \<noteq> None" by (cases sources) auto
  from validateMp3_mismatch[OF this ex] obtain e where "isParameterMismatch e" "validateMp3 mm first (tl sources) = Inl e"
    by blast
  with ne first show ?thesis by (auto simp: stitchMp3_parts_def)
qed

text \<open>
  Claim C4. The engines probe with \<open>probe_mm\<close>, whatever the library \<open>mm\<close> behind
  it answers. When every source probes as WAV and two of them differ in sample rate,
  channel count or bits per sample, \<open>stitchWav\<close> fails with the WAV parameter
  mismatch error: in buffer mode it returns no bytes and in file mode it ends before
  the output file is written. When every source probes as MP3 and two of them differ in
  sample rate, channel count or bitrate, \<open>stitchMp3\<close> fails with one of its two
  mismatch errors, again with no bytes returned and no file written.
\<close>

theorem mismatch_fails_before_output:
  "((\<forall>s\<in>set sources. probedWavParams mm s \<noteq> None)
      \<and> (\<exists>a\<in>set sources. \<exists>b\<in>set sources. probedWavParams mm a \<noteq> probedWavParams mm b)
    \<longrightarrow> stitchWav_buffer mm sources g = Inl WavParameterMismatch
        \<and> stitchWav_file mm sources g outPath = Some (None, Inl WavParameterMismatch))
   \<and> ((\<forall>s\<in>set sources. probedMp3Params mm s \<noteq> None)
      \<and> (\<exists>a\<in>set sources. \<exists>b\<in>set sources. probedMp3Params mm a \<noteq> probedMp3Params mm b)
    \<longrightarrow> (\<exists>e. isParameterMismatch e
           \<and> stitchMp3_buffer mm fs sources opts = Inl e
           \<and> stitchMp3_file mm fs sources opts outPath = (None, Inl e)))"
proof (intro conjI impI)
  assume h: "(\<forall>s\<in>set sources. probedWavParams mm s \<noteq> None)
      \<and> (\<exists>a\<in>set sources. \<exists>b\<in>set sources. probedWavParams mm a \<noteq> probedWavParams mm b)"
  then have plan: "stitchWav_plan mm sources g = Inl WavParameterMismatch"
    using stitchWav_mismatch by blast
  show "stitchWav_buffer mm sources g = Inl WavParameterMismatch"
    by (simp add: stitchWav_buffer_def plan)
  show "stitchWav_file mm sources g outPath = Some (None, Inl WavParameterMismatch)"
    by (simp add: stitchWav_file_def plan)
next
  assume h: "(\<forall>s\<in>set sources. probedMp3Params mm s \<noteq> None)
      \<and> (\<exists>a\<in>set sources. \<exists>b\<in>set sources. probedMp3Params mm a \<noteq> probedMp3Params mm b)"
  then obtain e where e: "isParameterMismatch e" "stitchMp3_parts mm fs sources opts = Inl e"
    using stitchMp3_mismatch by blast
  then show "\<exists>e. isParameterMismatch e
           \<and> stitchMp3_buffer mm fs sources opts = Inl e
           \<and> stitchMp3_file mm fs sources opts outPath = (None, Inl e)"
    by (auto simp: stitchMp3_buffer_def stitchMp3_file_def)
qed


theorem mismatch_fails_before_output_witness:
  "probedWavParams wavLibrary wavA = Some (1500, 1, 8)
   \<and> probedWavParams wavLibrary wavC = Some (8000, 1, 8)
   \<and> stitchWav_buffer wavLibrary [wavA, wavC] None = Inl WavParameterMismatch
   \<and> stitchWav_file wavLibrary [wavA, wavC] None ''out.wav''
       = Some (None, Inl WavParameterMismatch)
   \<and> probedMp3Params mp3Library mp3A = Some (44100, 1, Some 128)
   \<and> probedMp3Params mp3Library mp3B = Some (44100, 1, Some 160)
   \<and> (\<exists>e. isParameterMismatch e
         \<and> stitchMp3_buffer mp3Library oneAsset [mp3A, mp3B] noOverride = Inl e
         \<and> stitchMp3_file mp3Library oneAsset [mp3A, mp3B] noOverride ''out.mp3'' = (None, Inl e))"
  using mismatch_fails_before_output[where mm = wavLibrary and sources = "[wavA, wavC]"
      and g = None and outPath = "''out.wav''" and fs = oneAsset and opts = noOverride]
    mismatch_fails_before_output[where mm = mp3Library and sources = "[mp3A, mp3B]"
      and g = None and outPath = "''out.mp3''" and fs = oneAsset and opts = noOverride]
  by (simp add: probedWavParams_examples probedMp3Params_examples) blast

section \<open>The MP3 stitch engine: pure append and gap silence\<close>

subsection \<open>The tag size and the frame sync, against the words of the format\<close>

lemma push_or_add:
  fixes a c :: nat
  assumes "c < 2 ^ n"
  shows "push_bit n a OR c = a * 2 ^ n + c"
proof -
  have c: "take_bit n c = c" using assms by (simp add: take_bit_nat_eq_self)
  have "push_bit n a + c = push_bit n a OR c"
  proof (rule disjunctive_add_eq_or)
    have "push_bit n a AND take_bit n c = 0"
      by (simp add: bit_eq_iff bit_simps)
    with c show "push_bit n a AND c = 0" by simp
  qed
  then show ?thesis by (simp add: push_bit_eq_mult)
qed

lemma unat_and_7f: "unat ((b :: byte) AND 0x7f) = unat b mod 128"
proof -
  have m: "(0x7f :: byte) = mask 7" by (simp add: mask_eq_exp_minus_1)
  have "b AND mask 7 = take_bit 7 b" by (simp add: take_bit_eq_mask)
  then have "unat (b AND mask 7) = take_bit 7 (unat b)" by (simp only: unsigned_take_bit_eq)
  then show ?thesis unfolding m by (simp add: take_bit_eq_mod)
qed

lemma synchsafe_sum:
  "push_bit 21 (unat (b6 AND 0x7f)) OR push_bit 14 (unat (b7 AND 0x7f))
     OR push_bit 7 (unat (b8 AND 0x7f)) OR unat (b9 AND 0x7f)
   = synchsafe b6 b7 b8 b9"
proof -
  define a b c d where "a = unat b6 mod 128" and "b = unat b7 mod 128"
    and "c = unat b8 mod 128" and "d = unat b9 mod 128"
  have lt: "a < 128" "b < 128" "c < 128" "d < 128" by (simp_all add: a_def b_def c_def d_def)
  have cd: "push_bit 7 c OR d = c * 128 + d" using push_or_add[of d 7 c] lt by simp
  have "c * 128 + d < 2 ^ 14" using lt by simp
  from push_or_add[OF this, of b]
  have bcd: "push_bit 14 b OR (c * 128 + d) = b * 16384 + (c * 128 + d)" by simp
  have "b * 16384 + (c * 128 + d) < 2 ^ 21" using lt by simp
  from push_or_add[OF this, of a]
  have abcd: "push_bit 21 a OR (b * 16384 + (c * 128 + d))
      = a * 2097152 + (b * 16384 + (c * 128 + d))" by simp
  have "push_bit 21 a OR push_bit 14 b OR push_bit 7 c OR d
      = ((a * 128 + b) * 128 + c) * 128 + d"
    by (simp only: cd bcd abcd) simp
  then show ?thesis
    unfolding unat_and_7f synchsafe_def a_def b_def c_def d_def .
qed

lemma marker_codes:
  "(map (\<lambda>b. b AND 0x7f) xs = str_ID3) = (map (\<lambda>b. unat b mod 128) xs = [73, 68, 51])"
proof -
  have "inj (unat :: byte \<Rightarrow> nat)" by (auto simp: inj_on_def word_unat_eq_iff)
  then have "(map (\<lambda>b. b AND 0x7f) xs = str_ID3)
      = (map unat (map (\<lambda>b. b AND 0x7f) xs) = map unat str_ID3)"
    by (simp only: inj_map_eq_map)
  also have "map unat (map (\<lambda>b. b AND 0x7f) xs) = map (\<lambda>b. unat b mod 128) xs"
    by (simp add: unat_and_7f)
  also have "map unat str_ID3 = [73, 68, 51]" by (simp add: str_ID3_def)
  finally show ?thesis .
qed

lemma skipId3Size_eq: "skipId3Size (readBytes s 0 8192) = id3v2TagSize s"
proof (cases "10 \<le> length s")
  case False
  then show ?thesis
    by (simp add: skipId3Size_def id3v2TagSize_def readBytes_def subarray_def)
next
  case True
  have h: "readBytes s 0 8192 = take 8192 s" by (simp add: readBytes_def subarray_def)
  have t3: "toString_ascii (take 8192 s) 0 3 = map (\<lambda>b. b AND 0x7f) (take 3 s)"
    by (simp add: toString_ascii_def subarray_def min_def)
  have nth: "\<And>k. k < 10 \<Longrightarrow> readUInt8 (take 8192 s) k = s ! k"
    using True by (simp add: readUInt8_def)
  from True have len: "\<not> length (take 8192 s) < 10" by simp
  show ?thesis
    unfolding h skipId3Size_def id3v2TagSize_def Let_def t3 marker_codes
    using True len by (simp add: nth synchsafe_sum)
qed

lemma frameSync_head:
  "firstFrameSync (readBytes s 0 8192) (skipId3Size (readBytes s 0 8192)) = frameSyncOffset s"
proof -
  have h: "readBytes s 0 8192 = take 8192 s" by (simp add: readBytes_def subarray_def)
  have "find (frameSyncAt (take 8192 s)) [id3v2TagSize s ..< min 8192 (length s) - 3]
      = find (frameSyncAt s) [id3v2TagSize s ..< min 8192 (length s) - 3]"
    by (rule find_cong) (auto simp: frameSyncAt_def)
  moreover have "skipId3Size (take 8192 s) = id3v2TagSize s"
    using skipId3Size_eq[of s] unfolding h .
  ultimately show ?thesis
    unfolding frameSyncOffset_def firstFrameSync_def h
    by (simp add: min.commute)
qed

subsection \<open>The loop over the sources\<close>

lemma findFirstFrameOffset_from_find:
  "findFirstFrameOffset_from buf i = find (frameSyncAt buf) [i ..< length buf - 3]"
proof (induction buf i rule: findFirstFrameOffset_from.induct)
  case (1 buf i)
  show ?case
  proof (cases "i + 4 \<le> length buf")
    case False
    then have "[i ..< length buf - 3] = []" by simp
    with False show ?thesis by (subst findFirstFrameOffset_from.simps) simp
  next
    case True
    then have upt: "[i ..< length buf - 3] = i # [i + 1 ..< length buf - 3]"
      by (simp add: upt_conv_Cons)
    show ?thesis
    proof (cases "frameSyncAt buf i")
      case sync: True
      with True upt show ?thesis
        by (subst findFirstFrameOffset_from.simps) (simp add: frameSyncAt_def readUInt8_def Let_def)
    next
      case nosync: False
      then have "\<not> (readUInt8 buf i = 0xff \<and> readUInt8 buf (i + 1) AND 0xe0 = 0xe0)"
        by (simp add: frameSyncAt_def readUInt8_def)
      from "1.IH"[OF True refl refl this]
      have "findFirstFrameOffset_from buf (i + 1) = find (frameSyncAt buf) [i + 1 ..< length buf - 3]" .
      with True upt nosync show ?thesis
        by (subst findFirstFrameOffset_from.simps) (auto simp: frameSyncAt_def readUInt8_def Let_def)
    qed
  qed
qed

lemma findFirstFrameOffset_eq: "findFirstFrameOffset head from = firstFrameSync head from"
  by (simp add: findFirstFrameOffset_def firstFrameSync_def findFirstFrameOffset_from_find)

lemma readBytes_to_end: "readBytes cur from (length cur - from) = drop from cur"
  by (simp add: readBytes_def subarray_def)

lemma mp3Parts_step:
  "mp3Parts fs first opts keep g rounding i (cur # rest) =
     (case frameSyncOffset cur of
        None \<Rightarrow> Inl FrameSyncNotFound
      | Some off \<Rightarrow>
          (case (if rest \<noteq> [] \<and> g > 0 then gapSilence fs first opts g rounding else Inr []) of
             Inl e \<Rightarrow> Inl e
           | Inr sil \<Rightarrow>
               (case mp3Parts fs first opts keep g rounding (i + 1) rest of
                  Inl e \<Rightarrow> Inl e
                | Inr ps \<Rightarrow> Inr ((if keep \<and> i = 0 then cur else mp3Payload cur) # sil @ ps))))"
proof (cases "frameSyncOffset cur")
  case None
  then show ?thesis
    by (simp add: Let_def findFirstFrameOffset_eq frameSync_head)
next
  case (Some off)
  then have p: "mp3Payload cur = drop off cur" by (simp add: mp3Payload_def)
  show ?thesis
    using Some unfolding p
    by (auto simp add: Let_def findFirstFrameOffset_eq frameSync_head readBytes_to_end
        split: sum.splits)
qed

lemma mp3Parts_tail:
  assumes "0 < g \<longrightarrow> gapSilence fs first opts g rounding = Inr fill"
    and "\<not> 0 < g \<longrightarrow> fill = []"
    and "0 < i"
  shows "mp3Parts fs first opts keep g rounding i srcs =
     (if \<forall>s\<in>set srcs. frameSyncOffset s \<noteq> None
      then Inr (joinParts fill (map mp3Payload srcs))
      else Inl FrameSyncNotFound)"
  using assms
proof (induction srcs arbitrary: i)
  case Nil then show ?case by simp
next
  case (Cons s rest)
  from Cons.prems have IH: "mp3Parts fs first opts keep g rounding (i + 1) rest
      = (if \<forall>s\<in>set rest. frameSyncOffset s \<noteq> None
         then Inr (joinParts fill (map mp3Payload rest))
         else Inl FrameSyncNotFound)"
    by (intro Cons.IH) auto
  show ?case
  proof (cases "frameSyncOffset s")
    case None
    then show ?thesis by (simp add: mp3Parts_step del: mp3Parts.simps(2))
  next
    case (Some off)
    show ?thesis
    proof (cases rest)
      case Nil
      with IH Some Cons.prems(3) show ?thesis
        by (simp add: mp3Parts_step del: mp3Parts.simps(2))
    next
      case (Cons t ts)
      with IH Some Cons.prems show ?thesis
        by (cases "0 < g") (simp_all add: mp3Parts_step del: mp3Parts.simps(2))
    qed
  qed
qed

lemma gapSilence_copies:
  "gapSilence fs first opts g rounding
     = (case loadSilenceAsset fs first opts of
          Inl e \<Rightarrow> Inl e
        | Inr sil \<Rightarrow> Inr (replicate (silenceCopies rounding (sampleRate first) g) sil))"
  by (cases rounding; cases "loadSilenceAsset fs first opts")
     (simp_all add: gapSilence_def Let_def silenceCopies_def gapFrameCount_def gapFrames_def
        gapRepeats_def estimateFrameDurationMs_def frameDurationMs_def max.commute)

lemma silenceCopies_covers:
  assumes "0 < gapFrameCount rounding sr g"
  shows "1 \<le> silenceCopies rounding sr g
     \<and> real_of_int (gapFrameCount rounding sr g) * frameDurationMs sr
         \<le> 100 * real (silenceCopies rounding sr g)"
proof -
  define x where "x = real_of_int (gapFrameCount rounding sr g) * frameDurationMs sr / 100"
  have k: "silenceCopies rounding sr g = nat (max 1 \<lceil>x\<rceil>)"
    using assms by (simp add: silenceCopies_def Let_def x_def)
  have "x \<le> real_of_int \<lceil>x\<rceil>" by (rule le_of_int_ceiling)
  also have "\<dots> \<le> real_of_int (max 1 \<lceil>x\<rceil>)" by simp
  also have "\<dots> = real (nat (max 1 \<lceil>x\<rceil>))" by simp
  finally have "x \<le> real (silenceCopies rounding sr g)" by (simp add: k)
  then have "real_of_int (gapFrameCount rounding sr g) * frameDurationMs sr
         \<le> 100 * real (silenceCopies rounding sr g)" by (simp add: x_def)
  moreover have "1 \<le> silenceCopies rounding sr g" by (simp add: k)
  ultimately show ?thesis by simp
qed

lemma validateMp3_ok:
  assumes "\<forall>s\<in>set srcs.
      probedMp3Params mm s = Some (sampleRate first, channels first, bitrateKbps first)"
  shows "validateMp3 mm first srcs = Inr ()"
  using assms
proof (induction srcs)
  case Nil then show ?case by simp
next
  case (Cons s rest)
  then have "probedMp3Params mm s = Some (sampleRate first, channels first, bitrateKbps first)"
    by simp
  from probedMp3Params_Some[OF this] obtain m where "probe_mm mm s = Inr (Mp3 m)"
    "(sampleRate first, channels first, bitrateKbps first) = (sampleRate m, channels m, bitrateKbps m)"
    by blast
  with Cons show ?case by simp
qed

lemma joinParts_empty_fill: "joinParts [] cs = cs"
  by (induction "[] :: Buffer list" cs rule: joinParts.induct) simp_all

text \<open>
  The parts of a call that passes the validation. The first source is searched for its
  frame sync first; then, when a gap is asked for and a second source follows, the
  silence clip is resolved; then the later sources are searched.
\<close>

lemma stitchMp3_parts_eq:
  assumes ne: "sources \<noteq> []"
    and first: "probe_mm mm (hd sources) = Inr (Mp3 first)"
    and hom: "\<forall>s\<in>set (tl sources).
                probedMp3Params mm s = Some (sampleRate first, channels first, bitrateKbps first)"
    and g: "g = (case gapMs opts of None \<Rightarrow> 0 | Some g \<Rightarrow> g)"
    and rounding: "rounding = (case gapRounding opts of None \<Rightarrow> Nearest | Some r \<Rightarrow> r)"
    and chunks: "chunks = (if (case keepFirstId3 opts of None \<Rightarrow> True | Some k \<Rightarrow> k)
                           then hd sources else mp3Payload (hd sources))
                          # map mp3Payload (tl sources)"
  shows "stitchMp3_parts mm fs sources opts =
     (if frameSyncOffset (hd sources) = None then Inl FrameSyncNotFound
      else if tl sources = [] \<or> \<not> 0 < g then
        (if \<forall>s\<in>set (tl sources). frameSyncOffset s \<noteq> None then Inr chunks
         else Inl FrameSyncNotFound)
      else
        (case loadSilenceAsset fs first opts of
           Inl e \<Rightarrow> Inl e
         | Inr sil \<Rightarrow>
             if \<forall>s\<in>set (tl sources). frameSyncOffset s \<noteq> None
             then Inr (joinParts (replicate (silenceCopies rounding (sampleRate first) g) sil)
                         chunks)
             else Inl FrameSyncNotFound))"
proof -
  define keep where "keep = (case keepFirstId3 opts of None \<Rightarrow> True | Some k \<Rightarrow> k)"
  from ne obtain s rest where sources: "sources = s # rest" by (cases sources) auto
  from first sources have ps: "probe_mm mm s = Inr (Mp3 first)" by simp
  have val: "validateMp3 mm first rest = Inr ()"
    using hom sources by (intro validateMp3_ok) simp
  have run: "stitchMp3_parts mm fs sources opts = mp3Parts fs first opts keep g rounding 0 (s # rest)"
    using sources ps val
    by (simp add: stitchMp3_parts_def keep_def g rounding Let_def del: mp3Parts.simps(2))
  have ch: "chunks = (if keep then s else mp3Payload s) # map mp3Payload rest"
    by (simp add: chunks keep_def sources)
  show ?thesis
  proof (cases "frameSyncOffset s")
    case None
    with run sources show ?thesis by (simp add: mp3Parts_step del: mp3Parts.simps(2))
  next
    case (Some off)
    show ?thesis
    proof (cases "rest = [] \<or> \<not> 0 < g")
      case True
      have tail: "mp3Parts fs first opts keep g rounding (0 + 1) rest
          = (if \<forall>s\<in>set rest. frameSyncOffset s \<noteq> None
             then Inr (joinParts [] (map mp3Payload rest)) else Inl FrameSyncNotFound)"
      proof (cases "rest = []")
        case True then show ?thesis by simp
      next
        case False
        with True have "\<not> 0 < g" by simp
        then show ?thesis by (intro mp3Parts_tail) simp_all
      qed
      from True have nogap: "(if rest \<noteq> [] \<and> 0 < g then gapSilence fs first opts g rounding
          else Inr []) = Inr []" by auto
      show ?thesis
        unfolding run mp3Parts_step Some option.case nogap sum.case tail
        using True Some sources ch by (simp add: joinParts_empty_fill)
    next
      case False
      then have rest: "rest \<noteq> []" and pos: "0 < g" by simp_all
      have gap: "(if rest \<noteq> [] \<and> 0 < g then gapSilence fs first opts g rounding else Inr [])
          = gapSilence fs first opts g rounding" using False by simp
      show ?thesis
      proof (cases "loadSilenceAsset fs first opts")
        case (Inl e)
        then have "gapSilence fs first opts g rounding = Inl e" by (simp add: gapSilence_copies)
        then show ?thesis
          unfolding run mp3Parts_step Some option.case gap
          using False Some sources Inl by simp
      next
        case (Inr sil)
        define fill where "fill = replicate (silenceCopies rounding (sampleRate first) g) sil"
        have gs: "gapSilence fs first opts g rounding = Inr fill"
          by (simp add: gapSilence_copies Inr fill_def)
        have tail: "mp3Parts fs first opts keep g rounding (0 + 1) rest
          = (if \<forall>s\<in>set rest. frameSyncOffset s \<noteq> None
             then Inr (joinParts fill (map mp3Payload rest)) else Inl FrameSyncNotFound)"
          using gs pos by (intro mp3Parts_tail) simp_all
        from rest obtain t ts where ts: "rest = t # ts" by (cases rest) auto
        show ?thesis
          unfolding run mp3Parts_step Some option.case gap gs sum.case tail
          using False Some sources Inr ch ts by (simp add: fill_def)
      qed
    qed
  qed
qed

subsection \<open>The example sources\<close>

lemma frameSyncOffset_mp3A: "frameSyncOffset mp3A = Some 0"
  by (simp add: frameSyncOffset_def id3v2TagSize_def frameSyncAt_def mp3A_def)

lemma frameSyncOffset_taggedMp3: "frameSyncOffset taggedMp3 = Some 12"
  by (simp add: frameSyncOffset_def id3v2TagSize_def synchsafe_def frameSyncAt_def taggedMp3_def)

lemma mp3Payload_taggedMp3: "mp3Payload taggedMp3 = [0xff, 0xfb, 0x90, 0xc0, 0x00, 0x00]"
  by (simp add: mp3Payload_def frameSyncOffset_taggedMp3) (simp add: taggedMp3_def)


lemma id3v2TagSize_bigTagMp3: "id3v2TagSize bigTagMp3 = 8192"
  by (simp add: id3v2TagSize_def synchsafe_def bigTagMp3_def nth_append)

lemma frameSyncOffset_bigTagMp3: "frameSyncOffset bigTagMp3 = None"
  by (simp add: frameSyncOffset_def id3v2TagSize_bigTagMp3)

lemma frameSyncAt_bigTagMp3: "frameSyncAt bigTagMp3 8192"
  by (simp add: frameSyncAt_def bigTagMp3_def fourFrames_def mp3Frame_def nth_append)






lemma probe_mm_mp3A: "probe_mm mp3Library mp3A = Inr (Mp3 mp3AInfo)"
  by (simp add: probe_mm_mpeg[where mm = mp3Library] mp3Library_answers mp3AInfo_def)


lemma probe_mm_bigTagMp3: "probe_mm mp3Library bigTagMp3 = Inr (Mp3 mp3AInfo)"
  by (simp add: probe_mm_mpeg[where mm = mp3Library] mp3Library_answers mp3AInfo_def)

subsection \<open>Pure append\<close>

text \<open>
  Claim C2, as amended. Take a non-empty list of sources that the engines' probe reads as
  MP3 with the sample rate, channel count and bitrate of the first one, whatever the
  library behind the probe, with no gap (\<^verbatim>\<open>gapMs\<close> absent or 0) and with the first ID3 tag
  kept (\<^verbatim>\<open>keepFirstId3\<close> absent or true). When every source, the first one included, has
  a frame sync at or after the end of its ID3v2 tag with its four header bytes within
  its first 8192 bytes, \<open>stitchMp3\<close> returns the whole first source followed, for every
  later source in order, by that source from its first such sync to its end. When some
  source has none, the call fails with the frame-sync-not-found error.
\<close>

theorem stitchMp3_no_gap_concatenates:
  assumes "sources \<noteq> []"
    and "probedMp3Params mm (hd sources) \<noteq> None"
    and "\<forall>s\<in>set sources. probedMp3Params mm s = probedMp3Params mm (hd sources)"
    and "gapMs opts = None \<or> gapMs opts = Some 0"
    and "keepFirstId3 opts = None \<or> keepFirstId3 opts = Some True"
  shows "stitchMp3_buffer mm fs sources opts
           = (if \<forall>s\<in>set sources. frameSyncOffset s \<noteq> None
              then Inr (hd sources @ concat (map mp3Payload (tl sources)))
              else Inl FrameSyncNotFound)"
proof -
  from assms(2) obtain p where p: "probedMp3Params mm (hd sources) = Some p" by auto
  from probedMp3Params_Some[OF p] obtain first where
    first: "probe_mm mm (hd sources) = Inr (Mp3 first)"
    "p = (sampleRate first, channels first, bitrateKbps first)" by blast
  from assms(1,3) p first have hom: "\<forall>s\<in>set (tl sources).
      probedMp3Params mm s = Some (sampleRate first, channels first, bitrateKbps first)"
    by (cases sources) auto
  from assms(4) have g: "\<not> 0 < (case gapMs opts of None \<Rightarrow> 0 | Some g \<Rightarrow> g)" by auto
  from assms(5) have k: "(case keepFirstId3 opts of None \<Rightarrow> True | Some k \<Rightarrow> k)" by auto
  from assms(1) have split: "(\<forall>s\<in>set sources. frameSyncOffset s \<noteq> None)
      = (frameSyncOffset (hd sources) \<noteq> None \<and> (\<forall>s\<in>set (tl sources). frameSyncOffset s \<noteq> None))"
    by (cases sources) auto
  from stitchMp3_parts_eq[OF assms(1) first(1) hom refl refl refl, of fs] g k
  show ?thesis unfolding split by (simp add: stitchMp3_buffer_def)
qed

theorem stitchMp3_no_gap_concatenates_witness:
  "probedMp3Params mp3Library mp3A = Some (44100, 1, Some 128)
   \<and> probedMp3Params mp3Library taggedMp3 = Some (44100, 1, Some 128)
   \<and> gapMs zeroGap = Some 0 \<and> keepFirstId3 zeroGap = Some True
   \<and> frameSyncOffset mp3A = Some 0 \<and> frameSyncOffset taggedMp3 = Some 12
   \<and> stitchMp3_buffer mp3Library oneAsset [mp3A, taggedMp3] zeroGap
       = Inr ([0xff, 0xfb, 0x90, 0xc0, 0x00, 0x00] @ [0xff, 0xfb, 0x90, 0xc0, 0x00, 0x00])"
proof -
  have opts: "gapMs zeroGap = Some 0" "keepFirstId3 zeroGap = Some True"
    by (simp_all add: zeroGap_def)
  have "stitchMp3_buffer mp3Library oneAsset [mp3A, taggedMp3] zeroGap
          = (if \<forall>s\<in>set [mp3A, taggedMp3]. frameSyncOffset s \<noteq> None
             then Inr (hd [mp3A, taggedMp3] @ concat (map mp3Payload (tl [mp3A, taggedMp3])))
             else Inl FrameSyncNotFound)"
    by (rule stitchMp3_no_gap_concatenates)
       (simp_all add: probedMp3Params_examples opts)
  then have "stitchMp3_buffer mp3Library oneAsset [mp3A, taggedMp3] zeroGap
          = Inr ([0xff, 0xfb, 0x90, 0xc0, 0x00, 0x00] @ [0xff, 0xfb, 0x90, 0xc0, 0x00, 0x00])"
    by (simp add: frameSyncOffset_mp3A frameSyncOffset_taggedMp3 mp3Payload_taggedMp3)
       (simp add: mp3A_def)
  with opts probedMp3Params_examples(1,3) frameSyncOffset_mp3A frameSyncOffset_taggedMp3
  show ?thesis by blast
qed

text \<open>
  The claim as the specification words it has every list of homogeneous MP3 sources
  stitched. The file \<open>bigTagMp3\<close> carries an ID3v2 tag of 8192 bytes and its four
  frames right behind it, the first one at offset 8192; a probe that reads it as MP3 lets it pass the
  validation, and the engine, which looks for the sync in the first 8192 bytes only,
  fails on it instead of returning its bytes.
\<close>

theorem stitchMp3_big_tag_counterexample:
  "probedMp3Params mp3Library bigTagMp3 = Some (44100, 1, Some 128)
   \<and> id3v2TagSize bigTagMp3 = 8192 \<and> frameSyncAt bigTagMp3 8192
   \<and> stitchMp3_buffer mp3Library emptyFs [bigTagMp3] zeroGap = Inl FrameSyncNotFound"
proof -
  have hom: "\<forall>s\<in>set (tl [bigTagMp3]). probedMp3Params mp3Library s
      = Some (sampleRate mp3AInfo, channels mp3AInfo, bitrateKbps mp3AInfo)" by simp
  have pr: "probe_mm mp3Library (hd [bigTagMp3]) = Inr (Mp3 mp3AInfo)"
    by (simp add: probe_mm_bigTagMp3)
  from stitchMp3_parts_eq[OF _ pr hom refl refl refl, of emptyFs zeroGap]
  have "stitchMp3_buffer mp3Library emptyFs [bigTagMp3] zeroGap = Inl FrameSyncNotFound"
    by (simp add: stitchMp3_buffer_def frameSyncOffset_bigTagMp3)
  with probedMp3Params_examples(4) id3v2TagSize_bigTagMp3 frameSyncAt_bigTagMp3
  show ?thesis by blast
qed

subsection \<open>Gap silence\<close>

text \<open>
  Claim C3. Take a call with \<^verbatim>\<open>gapMs = g > 0\<close> on sources that the engines' probe reads
  as MP3, homogeneous with the first one, whatever the library behind the probe. The
  frame duration is \<open>1152 / sampleRate * 1000\<close>, \<open>frames\<close> is \<open>g\<close> divided by it,
  rounded by the policy of the options (nearest by default) and clamped at 0, and
  \<open>copies\<close> is 0 when \<open>frames\<close> is 0 and \<open>max 1 (ceil (frames * duration / 100))\<close>
  otherwise, which at 0.1 s per copy covers the quantized duration. The call looks for
  the frame sync of the first source; with a single source it returns that source's
  chunk; with more it resolves the silence clip, failing with the resolver's error when
  there is none, and returns the sources' chunks with \<open>copies\<close> whole copies of the clip
  between each two consecutive chunks, provided every later source has a frame sync.
  Numbers are exact reals here; the rounding of IEEE doubles is not modelled.
\<close>

theorem stitchMp3_gap_inserts_silence:
  assumes "sources \<noteq> []"
    and "probe_mm mm (hd sources) = Inr (Mp3 first)"
    and "\<forall>s\<in>set (tl sources).
           probedMp3Params mm s = Some (sampleRate first, channels first, bitrateKbps first)"
    and "gapMs opts = Some g" and "0 < g"
    and "rounding = (case gapRounding opts of None \<Rightarrow> Nearest | Some r \<Rightarrow> r)"
    and "copies = silenceCopies rounding (sampleRate first) g"
    and "frames = gapFrameCount rounding (sampleRate first) g"
    and "chunks = (if (case keepFirstId3 opts of None \<Rightarrow> True | Some k \<Rightarrow> k) then hd sources
                   else mp3Payload (hd sources)) # map mp3Payload (tl sources)"
  shows "stitchMp3_buffer mm fs sources opts
           = (if frameSyncOffset (hd sources) = None then Inl FrameSyncNotFound
              else if tl sources = [] then Inr (hd chunks)
              else (case loadSilenceAsset fs first opts of
                      Inl e \<Rightarrow> Inl e
                    | Inr sil \<Rightarrow>
                        if \<forall>s\<in>set (tl sources). frameSyncOffset s \<noteq> None
                        then Inr (concat (joinParts (replicate copies sil) chunks))
                        else Inl FrameSyncNotFound))
         \<and> 0 \<le> frames
         \<and> (frames = 0 \<longrightarrow> copies = 0)
         \<and> (0 < frames \<longrightarrow>
               copies = nat (max 1 \<lceil>real_of_int frames * frameDurationMs (sampleRate first) / 100\<rceil>)
               \<and> 1 \<le> copies
               \<and> real_of_int frames * frameDurationMs (sampleRate first) \<le> 100 * real copies)"
proof -
  from assms(4,5) have g: "g = (case gapMs opts of None \<Rightarrow> 0 | Some g \<Rightarrow> g)" by simp
  have out: "stitchMp3_buffer mm fs sources opts
           = (if frameSyncOffset (hd sources) = None then Inl FrameSyncNotFound
              else if tl sources = [] then Inr (hd chunks)
              else (case loadSilenceAsset fs first opts of
                      Inl e \<Rightarrow> Inl e
                    | Inr sil \<Rightarrow>
                        if \<forall>s\<in>set (tl sources). frameSyncOffset s \<noteq> None
                        then Inr (concat (joinParts (replicate copies sil) chunks))
                        else Inl FrameSyncNotFound))"
    unfolding stitchMp3_buffer_def
      stitchMp3_parts_eq[OF assms(1,2,3) g assms(6) assms(9), of fs]
    using assms(5) by (auto simp: assms(7) assms(9) split: sum.splits)
  have nonneg: "0 \<le> frames" by (simp add: assms(8) gapFrameCount_def)
  have zero: "frames = 0 \<longrightarrow> copies = 0" by (simp add: assms(7,8) silenceCopies_def Let_def)
  have pos: "0 < frames \<longrightarrow>
               copies = nat (max 1 \<lceil>real_of_int frames * frameDurationMs (sampleRate first) / 100\<rceil>)
               \<and> 1 \<le> copies
               \<and> real_of_int frames * frameDurationMs (sampleRate first) \<le> 100 * real copies"
    using silenceCopies_covers[of rounding "sampleRate first" g]
    by (simp add: assms(7,8) silenceCopies_def Let_def)
  from out nonneg zero pos show ?thesis by blast
qed

lemma gapFrameCount_example: "gapFrameCount Nearest 44100 100 = 4"
  by (simp add: gapFrameCount_def frameDurationMs_def round_def)

lemma silenceCopies_example: "silenceCopies Nearest 44100 100 = 2"
  by (simp add: silenceCopies_def gapFrameCount_example frameDurationMs_def)

theorem stitchMp3_gap_inserts_silence_witness:
  "probe_mm mp3Library (hd [mp3A, taggedMp3]) = Inr (Mp3 mp3AInfo)
   \<and> probedMp3Params mp3Library taggedMp3
       = Some (sampleRate mp3AInfo, channels mp3AInfo, bitrateKbps mp3AInfo)
   \<and> gapMs gap100 = Some 100
   \<and> loadSilenceAsset oneAsset mp3AInfo gap100 = Inr [0x11, 0x22]
   \<and> gapFrameCount Nearest 44100 100 = 4
   \<and> silenceCopies Nearest 44100 100 = 2
   \<and> stitchMp3_buffer mp3Library oneAsset [mp3A, taggedMp3] gap100
       = Inr ([0xff, 0xfb, 0x90, 0xc0, 0x00, 0x00] @ [0x11, 0x22, 0x11, 0x22]
              @ [0xff, 0xfb, 0x90, 0xc0, 0x00, 0x00])
   \<and> gapMs noOverride = Some 100
   \<and> loadSilenceAsset emptyFs mp3AInfo noOverride = Inl (SilenceAssetNotFound 44100 mono 128)
   \<and> stitchMp3_buffer mp3Library emptyFs [mp3A, taggedMp3] noOverride
       = Inl (SilenceAssetNotFound 44100 mono 128)"
proof -
  have pr: "probe_mm mp3Library (hd [mp3A, taggedMp3]) = Inr (Mp3 mp3AInfo)"
    by (simp add: probe_mm_mp3A)
  have hom: "probedMp3Params mp3Library taggedMp3
      = Some (sampleRate mp3AInfo, channels mp3AInfo, bitrateKbps mp3AInfo)"
    by (simp add: probedMp3Params_examples mp3AInfo_def)
  have opts: "gapMs gap100 = Some 100" "gapRounding gap100 = None" "keepFirstId3 gap100 = None"
    "gapMs noOverride = Some 100" "gapRounding noOverride = None" "keepFirstId3 noOverride = None"
    by (simp_all add: gap100_def noOverride_def)
  have sil: "loadSilenceAsset oneAsset mp3AInfo gap100 = Inr [0x11, 0x22]"
    by (simp add: loadSilenceAsset_def gap100_def)
  have nosil: "loadSilenceAsset emptyFs mp3AInfo noOverride
      = Inl (SilenceAssetNotFound 44100 mono 128)"
    by (simp add: loadSilenceAsset_def noOverride_def emptyFs_def mp3AInfo_def)
  have sr: "sampleRate mp3AInfo = 44100" by (simp add: mp3AInfo_def)
  have a: "stitchMp3_buffer mp3Library oneAsset [mp3A, taggedMp3] gap100
       = Inr ([0xff, 0xfb, 0x90, 0xc0, 0x00, 0x00] @ [0x11, 0x22, 0x11, 0x22]
              @ [0xff, 0xfb, 0x90, 0xc0, 0x00, 0x00])"
    using stitchMp3_gap_inserts_silence[where mm = mp3Library and sources = "[mp3A, taggedMp3]"
        and first = mp3AInfo and opts = gap100 and g = 100 and fs = oneAsset
        and rounding = Nearest and copies = 2 and frames = 4, OF _ pr _ _ _ _ _ _ refl]
    by (simp add: hom opts sil sr gapFrameCount_example silenceCopies_example
        frameSyncOffset_mp3A frameSyncOffset_taggedMp3 mp3Payload_taggedMp3 numeral_2_eq_2)
       (simp add: mp3A_def)
  have b: "stitchMp3_buffer mp3Library emptyFs [mp3A, taggedMp3] noOverride
       = Inl (SilenceAssetNotFound 44100 mono 128)"
    using stitchMp3_gap_inserts_silence[where mm = mp3Library and sources = "[mp3A, taggedMp3]"
        and first = mp3AInfo and opts = noOverride and g = 100 and fs = emptyFs
        and rounding = Nearest and copies = 2 and frames = 4, OF _ pr _ _ _ _ _ _ refl]
    by (simp add: hom opts nosil sr gapFrameCount_example silenceCopies_example
        frameSyncOffset_mp3A)
  from pr hom opts(1,4) sil nosil gapFrameCount_example silenceCopies_example a b
  show ?thesis by blast
qed

section \<open>What the output of a call depends on\<close>













section \<open>The WAV stitch engine: the bytes of the output\<close>

lemma length_le16 [simp]: "length (le16 v) = 2" by (simp add: le16_def)

lemma length_le32 [simp]: "length (le32 v) = 4" by (simp add: le32_def)

lemma length_strs [simp]:
  "length str_RIFF = 4" "length str_WAVE = 4" "length str_fmt = 4" "length str_data = 4"
  by (simp_all add: str_RIFF_def str_WAVE_def str_fmt_def str_data_def)




















lemma length_canonicalHeader [simp]: "length (canonicalHeader t sr ch bps) = 44"
  by (simp add: canonicalHeader_def)



















section \<open>Probing the output of a stitch\<close>

subsection \<open>The header scan on a buffer that shares its bytes with another\<close>




















subsection \<open>The header parser on a canonical header\<close>







subsection \<open>The round trip\<close>







text \<open>
  The header parser tries the WAV header first and needs 44 bytes for it. It reads
  \<open>riffLikeMp3\<close>, which has the RIFF/WAVE magic and 20 bytes, as MP3, and the same bytes
  followed by \<open>fmtLikeMp3\<close> as WAV: a first source that is kept whole keeps its reading
  under what the engine appends only if it cannot come to look like a WAV header.
\<close>

lemma probe_rereads_extended_source:
  "mp3Params riffLikeMp3 = Some (44100, 1, Some 128)
   \<and> wavParams (riffLikeMp3 @ fmtLikeMp3) = Some (1500, 1, 8)"
  by (simp add: mp3Params_def wavParams_def eval_defs riffLikeMp3_def fmtLikeMp3_def)




end
